theory Spec2Isabelle
  imports Complex_Main
begin

section \<open>The Editor component of src/components/Editor.tsx\<close>

text \<open>
  The component keeps its state in React hooks and changes it in event handlers. Each
  handler becomes a function from the state before the event to the state after it: the
  handler runs to completion on the values of the render it was created in, and the next
  event is handled on the result. The handlers are first modelled in exact arithmetic,
  with JavaScript numbers as real numbers. Where a property depends on the rounding of
  IEEE doubles (the two properties of the coordinate transform), the computation is
  modelled a second time with every operation rounded to binary64, under the same name
  with the suffix \<open>_f64\<close>. A division by \<open>zoom\<close> means the same in HOL and in
  JavaScript only where \<open>zoom\<close> is not zero; the theorems that depend on a division
  say so.
\<close>

subsection \<open>Data\<close>

text \<open>\<open>{ x, y }\<close>: the pan offset and the coordinates returned by the transform.\<close>

record point =
  px :: real
  py :: real

definition origin :: point where
  "origin = \<lparr>px = 0, py = 0\<rparr>"

text \<open>\<open>"pan" | "draw"\<close>\<close>

datatype tool = Pan | Draw

text \<open>
  What the handlers read of the container element: the left and top edge of
  \<open>getBoundingClientRect()\<close> and the element's \<open>clientWidth\<close> and \<open>clientHeight\<close>.
\<close>

record container_el =
  rect_left :: real
  rect_top :: real
  clientWidth :: nat
  clientHeight :: nat

text \<open>
  A path of the 2D context is a list of subpaths, each a list of points. A stroke
  painted into the canvas is the path that was stroked and the line width it was
  stroked with.
\<close>

type_synonym path2d = "point list list"

record stroke =
  stroke_path :: path2d
  stroke_width :: real

text \<open>
  The canvas element: the size of its bitmap and the bitmap itself, kept as the strokes
  painted since the surface was last fully transparent. An empty list is a fully
  transparent surface.
\<close>

record canvas_el =
  width :: nat
  height :: nat
  bitmap :: "stroke list"

text \<open>The state of the \<open>CanvasRenderingContext2D\<close> that the handlers use.\<close>

record context2d =
  path :: path2d
  lineWidth :: real

text \<open>
  \<open>toDataURL()\<close> is an opaque encoding of the canvas; the model keeps what it encodes.
\<close>

type_synonym snapshot = canvas_el

definition toDataURL :: "canvas_el \<Rightarrow> snapshot" where
  "toDataURL cv = cv"

text \<open>
  The state of the component: the six \<open>useState\<close> values, the two refs (\<open>None\<close> is
  \<open>current === null\<close>), the \<open>ctx\<close> state (\<open>None\<close> is \<open>null\<close>), the optional prop
  \<open>onMaskChange\<close> (\<open>True\<close> when a callback was passed) and the arguments of the calls
  made to that callback so far, oldest first.

  The context paints into the canvas it was obtained from, which is the one
  \<open>canvasRef\<close> holds from mount to unmount. With \<open>canvasRef\<close> empty there is no
  canvas in the state to paint into.
\<close>

record state =
  zoom :: real
  position :: point
  isDragging :: bool
  isDrawing :: bool
  brushSize :: real
  activeTool :: tool
  containerRef :: "container_el option"
  canvasRef :: "canvas_el option"
  ctx :: "context2d option"
  onMaskChange :: bool
  maskChanges :: "snapshot list"

text \<open>The fields of the events that the handlers read.\<close>

record pointer =
  clientX :: real
  clientY :: real

record wheel_event = pointer +
  deltaY :: real

record mouse_event = pointer +
  button :: int
  targetTag :: string
  movementX :: real
  movementY :: real

subsection \<open>The 2D context\<close>

definition beginPath :: "context2d \<Rightarrow> context2d" where
  "beginPath c = c\<lparr>path := []\<rparr>"

definition moveTo :: "point \<Rightarrow> context2d \<Rightarrow> context2d" where
  "moveTo p c = c\<lparr>path := path c @ [[p]]\<rparr>"

text \<open>\<open>lineTo\<close> on a path with no subpath starts one at the point.\<close>

definition lineTo :: "point \<Rightarrow> context2d \<Rightarrow> context2d" where
  "lineTo p c =
     (if path c = [] then c\<lparr>path := [[p]]\<rparr>
      else c\<lparr>path := butlast (path c) @ [last (path c) @ [p]]\<rparr>)"

text \<open>The setter of \<open>lineWidth\<close> ignores zero and negative values.\<close>

definition set_lineWidth :: "real \<Rightarrow> context2d \<Rightarrow> context2d" where
  "set_lineWidth w c = (if 0 < w then c\<lparr>lineWidth := w\<rparr> else c)"

text \<open>\<open>stroke()\<close> paints the current path with the current line width.\<close>

definition stroke_ctx :: "context2d \<Rightarrow> canvas_el \<Rightarrow> canvas_el" where
  "stroke_ctx c cv =
     cv\<lparr>bitmap := bitmap cv @ [\<lparr>stroke_path = path c, stroke_width = lineWidth c\<rparr>]\<rparr>"

text \<open>
  \<open>clearRect(x, y, w, h)\<close>: a rectangle that covers the bitmap leaves it fully
  transparent. A smaller one may leave paint behind; the strokes are kept then.
\<close>

definition clearRect :: "real \<Rightarrow> real \<Rightarrow> real \<Rightarrow> real \<Rightarrow> canvas_el \<Rightarrow> canvas_el" where
  "clearRect x0 y0 w h cv =
     (if x0 \<le> 0 \<and> y0 \<le> 0 \<and> real (width cv) \<le> x0 + w \<and> real (height cv) \<le> y0 + h
      then cv\<lparr>bitmap := []\<rparr> else cv)"

subsection \<open>The handlers\<close>

definition handleWheel :: "wheel_event \<Rightarrow> state \<Rightarrow> state" where
  "handleWheel e s =
     (case containerRef s of
        None \<Rightarrow> s
      | Some container \<Rightarrow>
          let delta = - deltaY e / 1000;
              newZoom = min (max (1 / 10) (zoom s + delta)) 5;
              mouseX = clientX e - rect_left container;
              mouseY = clientY e - rect_top container
          in s\<lparr>position :=
                 \<lparr>px = mouseX - (mouseX - px (position s)) * (newZoom / zoom s),
                  py = mouseY - (mouseY - py (position s)) * (newZoom / zoom s)\<rparr>,
               zoom := newZoom\<rparr>)"

definition getCanvasCoordinates :: "state \<Rightarrow> real \<Rightarrow> real \<Rightarrow> point" where
  "getCanvasCoordinates s cx cy =
     (case canvasRef s of
        None \<Rightarrow> \<lparr>px = 0, py = 0\<rparr>
      | Some cv \<Rightarrow>
          (case containerRef s of
             None \<Rightarrow> \<lparr>px = 0, py = 0\<rparr>
           | Some container \<Rightarrow>
               let containerX = cx - rect_left container;
                   containerY = cy - rect_top container
               in \<lparr>px = (containerX - px (position s)) / zoom s,
                   py = (containerY - py (position s)) / zoom s\<rparr>))"

definition handleMouseDown :: "mouse_event \<Rightarrow> state \<Rightarrow> state" where
  "handleMouseDown e s =
     (if button e \<noteq> 0 \<or> targetTag e = ''BUTTON'' \<or> targetTag e = ''INPUT'' then s
      else if activeTool s = Pan then s\<lparr>isDragging := True\<rparr>
      else if activeTool s = Draw then
        (case ctx s of
           None \<Rightarrow> s
         | Some c \<Rightarrow>
             let p = getCanvasCoordinates s (clientX e) (clientY e)
             in s\<lparr>isDrawing := True, ctx := Some (moveTo p (beginPath c))\<rparr>)
      else s)"

definition handleMouseMove :: "mouse_event \<Rightarrow> state \<Rightarrow> state" where
  "handleMouseMove e s =
     (if targetTag e = ''BUTTON'' \<or> targetTag e = ''INPUT'' then s
      else if activeTool s = Pan \<and> isDragging s then
        s\<lparr>position := \<lparr>px = px (position s) + movementX e,
                        py = py (position s) + movementY e\<rparr>\<rparr>
      else if activeTool s = Draw \<and> isDrawing s then
        (case ctx s of
           None \<Rightarrow> s
         | Some c \<Rightarrow>
             let p = getCanvasCoordinates s (clientX e) (clientY e);
                 c' = set_lineWidth (brushSize s / zoom s) (lineTo p c)
             in s\<lparr>ctx := Some c', canvasRef := map_option (stroke_ctx c') (canvasRef s)\<rparr>)
      else s)"

text \<open>Registered for both \<open>onMouseUp\<close> and \<open>onMouseLeave\<close>; it does not read the event.\<close>

definition handleMouseUp :: "state \<Rightarrow> state" where
  "handleMouseUp s =
     (let s' = s\<lparr>isDragging := False, isDrawing := False\<rparr>
      in case canvasRef s of
           None \<Rightarrow> s'
         | Some cv \<Rightarrow>
             if onMaskChange s then s'\<lparr>maskChanges := maskChanges s @ [toDataURL cv]\<rparr>
             else s')"

definition resetView :: "state \<Rightarrow> state" where
  "resetView s =
     (let s' = s\<lparr>zoom := 1, position := \<lparr>px = 0, py = 0\<rparr>\<rparr>
      in case ctx s of
           None \<Rightarrow> s'
         | Some c \<Rightarrow>
             (case canvasRef s of
                None \<Rightarrow> s'
              | Some cv \<Rightarrow>
                  s'\<lparr>canvasRef := Some (clearRect 0 0 (real (width cv)) (real (height cv)) cv)\<rparr>))"

subsection \<open>Mounting, rendering and the load handler\<close>

text \<open>
  The values of the first render: the \<open>useState\<close> defaults, both refs and \<open>ctx\<close> still
  \<open>null\<close>. The argument says whether the parent passed \<open>onMaskChange\<close>.
\<close>

definition initialState :: "bool \<Rightarrow> state" where
  "initialState cb =
     \<lparr>zoom = 1, position = \<lparr>px = 0, py = 0\<rparr>, isDragging = False, isDrawing = False,
      brushSize = 20, activeTool = Pan, containerRef = None, canvasRef = None,
      ctx = None, onMaskChange = cb, maskChanges = []\<rparr>"

text \<open>
  The JSX gives the canvas \<open>width={containerRef.current?.clientWidth}\<close> and
  \<open>height={containerRef.current?.clientHeight}\<close>. With the ref still empty the
  attribute is absent and the canvas has the default bitmap of 300 by 150 pixels.
\<close>

definition canvasWidthProp :: "state \<Rightarrow> nat" where
  "canvasWidthProp s = (case containerRef s of None \<Rightarrow> 300 | Some container \<Rightarrow> clientWidth container)"

definition canvasHeightProp :: "state \<Rightarrow> nat" where
  "canvasHeightProp s = (case containerRef s of None \<Rightarrow> 150 | Some container \<Rightarrow> clientHeight container)"

text \<open>A context as \<open>getContext("2d")\<close> returns it: no path, line width 1.\<close>

definition defaultContext :: context2d where
  "defaultContext = \<lparr>path = [], lineWidth = 1\<rparr>"

text \<open>
  Commit of the first render: the elements exist, the canvas with the attributes of that
  render, and the refs point to them.
\<close>

definition mount :: "container_el \<Rightarrow> state \<Rightarrow> state" where
  "mount container s =
     s\<lparr>containerRef := Some container,
       canvasRef := Some \<lparr>width = canvasWidthProp s, height = canvasHeightProp s, bitmap = []\<rparr>\<rparr>"

text \<open>
  The \<open>useEffect\<close> that runs once after mount. The argument says whether
  \<open>getContext("2d")\<close> returned a context. The cap, join and colour it sets play no part
  in the properties below and are left out of \<open>context2d\<close>.
\<close>

definition mountEffect :: "bool \<Rightarrow> state \<Rightarrow> state" where
  "mountEffect has2d s =
     (case canvasRef s of
        None \<Rightarrow> s
      | Some cv \<Rightarrow> if has2d then s\<lparr>ctx := Some defaultContext\<rparr> else s)"

definition mounted :: "container_el \<Rightarrow> bool \<Rightarrow> bool \<Rightarrow> state" where
  "mounted container has2d cb = mountEffect has2d (mount container (initialState cb))"

text \<open>
  A later render writes the two attributes again when their values have changed.
  Writing the size of a canvas clears its bitmap and resets its context.
\<close>

definition renderCanvas :: "state \<Rightarrow> state" where
  "renderCanvas s =
     (case canvasRef s of
        None \<Rightarrow> s
      | Some cv \<Rightarrow>
          if width cv = canvasWidthProp s \<and> height cv = canvasHeightProp s then s
          else s\<lparr>canvasRef := Some \<lparr>width = canvasWidthProp s, height = canvasHeightProp s,
                                    bitmap = []\<rparr>,
                 ctx := map_option (\<lambda>c. defaultContext) (ctx s)\<rparr>)"

text \<open>
  The element a \<open>load\<close> event is fired at. An image element has \<open>naturalWidth\<close> and
  \<open>naturalHeight\<close>; a canvas element has neither, and reading them gives \<open>undefined\<close>.
\<close>

datatype element = ImgElement nat nat | CanvasElement

fun naturalWidth :: "element \<Rightarrow> nat option" where
  "naturalWidth (ImgElement w h) = Some w"
| "naturalWidth CanvasElement = None"

fun naturalHeight :: "element \<Rightarrow> nat option" where
  "naturalHeight (ImgElement w h) = Some h"
| "naturalHeight CanvasElement = None"

text \<open>
  The \<open>onLoad\<close> handler of the JSX (lines 163 to 169), which copies the natural size of
  \<open>e.target\<close> into the canvas. \<open>undefined\<close> written to the size of a canvas is 0,
  and writing the size clears the bitmap and resets the context.
\<close>

definition canvas_onLoad :: "element \<Rightarrow> state \<Rightarrow> state" where
  "canvas_onLoad target s =
     (case canvasRef s of
        None \<Rightarrow> s
      | Some cv \<Rightarrow>
          s\<lparr>canvasRef :=
              Some \<lparr>width = (case naturalWidth target of None \<Rightarrow> 0 | Some w \<Rightarrow> w),
                    height = (case naturalHeight target of None \<Rightarrow> 0 | Some h \<Rightarrow> h),
                    bitmap = []\<rparr>,
            ctx := map_option (\<lambda>c. defaultContext) (ctx s)\<rparr>)"

text \<open>
  The handler is a prop of the \<open>canvas\<close> element, not of the \<open>img\<close> element beside it.
  A \<open>load\<close> event does not bubble and the canvas is not an ancestor of the image, so the
  handler runs only for a \<open>load\<close> event fired at the canvas itself.
\<close>

definition dispatchLoad :: "element \<Rightarrow> state \<Rightarrow> state" where
  "dispatchLoad target s = (if target = CanvasElement then canvas_onLoad target s else s)"

subsection \<open>Events\<close>

text \<open>
  What can happen to a mounted component: the five events of the container, a click on
  one of the three buttons, an input of the brush slider, the load of the image with its
  natural size, and a render.
\<close>

datatype event =
    Wheel wheel_event
  | MouseDown mouse_event
  | MouseMove mouse_event
  | MouseUp
  | MouseLeave
  | ClickPan
  | ClickDraw
  | ClickReset
  | BrushInput real
  | ImageLoaded nat nat
  | Render

text \<open>The slider is part of the page only while the draw tool is active.\<close>

fun handle :: "event \<Rightarrow> state \<Rightarrow> state" where
  "handle (Wheel e) s = handleWheel e s"
| "handle (MouseDown e) s = handleMouseDown e s"
| "handle (MouseMove e) s = handleMouseMove e s"
| "handle MouseUp s = handleMouseUp s"
| "handle MouseLeave s = handleMouseUp s"
| "handle ClickPan s = s\<lparr>activeTool := Pan\<rparr>"
| "handle ClickDraw s = s\<lparr>activeTool := Draw\<rparr>"
| "handle ClickReset s = resetView s"
| "handle (BrushInput v) s = (if activeTool s = Draw then s\<lparr>brushSize := v\<rparr> else s)"
| "handle (ImageLoaded w h) s = dispatchLoad (ImgElement w h) s"
| "handle Render s = renderCanvas s"

fun run :: "event list \<Rightarrow> state \<Rightarrow> state" where
  "run [] s = s"
| "run (e # es) s = run es (handle e s)"

text \<open>The slider has \<open>min="5"\<close> and \<open>max="100"\<close>: its value lies between them.\<close>

fun event_ok :: "event \<Rightarrow> bool" where
  "event_ok (BrushInput v) = (5 \<le> v \<and> v \<le> 100)"
| "event_ok e = True"

fun pointer_event :: "event \<Rightarrow> bool" where
  "pointer_event (MouseDown e) = True"
| "pointer_event (MouseMove e) = True"
| "pointer_event MouseUp = True"
| "pointer_event MouseLeave = True"
| "pointer_event e = False"

fun release_event :: "event \<Rightarrow> bool" where
  "release_event MouseUp = True"
| "release_event MouseLeave = True"
| "release_event e = False"

text \<open>The strokes in the mask, and the size of the mask.\<close>

definition mask :: "state \<Rightarrow> stroke list" where
  "mask s = (case canvasRef s of None \<Rightarrow> [] | Some cv \<Rightarrow> bitmap cv)"

definition maskSize :: "state \<Rightarrow> (nat \<times> nat) option" where
  "maskSize s = map_option (\<lambda>cv. (width cv, height cv)) (canvasRef s)"

text \<open>
  The transform of the style attribute, \<open>translate(position.x, position.y) scale(zoom)\<close>
  with origin \<open>0 0\<close>: a point of the untransformed element is scaled by \<open>zoom\<close> and then
  moved by \<open>position\<close>, which gives its place relative to the container.
\<close>

definition renderTransform :: "state \<Rightarrow> point \<Rightarrow> point" where
  "renderTransform s p =
     \<lparr>px = px (position s) + zoom s * px p, py = py (position s) + zoom s * py p\<rparr>"

text \<open>From a place relative to the container to client coordinates.\<close>

definition toClient :: "container_el \<Rightarrow> point \<Rightarrow> point" where
  "toClient container p = \<lparr>px = rect_left container + px p, py = rect_top container + py p\<rparr>"

text \<open>\<open>clamp(v, lo, hi)\<close> as the specification uses it.\<close>

definition clamp_spec :: "real \<Rightarrow> real \<Rightarrow> real \<Rightarrow> real" where
  "clamp_spec v lo hi = (if v < lo then lo else if hi < v then hi else v)"

subsection \<open>Invariants and sample inputs\<close>

text \<open>
  What holds of a mounted component whatever happens to it: the zoom stays in its range,
  both refs are set, nothing is painted without a context, and a draw gesture is only
  active with a context.
\<close>

definition view_ok :: "state \<Rightarrow> bool" where
  "view_ok s \<longleftrightarrow>
     1 / 10 \<le> zoom s \<and> zoom s \<le> 5 \<and> containerRef s \<noteq> None \<and> canvasRef s \<noteq> None \<and>
     (ctx s = None \<longrightarrow> mask s = [] \<and> \<not> isDrawing s)"

definition brush_ok :: "state \<Rightarrow> bool" where
  "brush_ok s \<longleftrightarrow> 5 \<le> brushSize s \<and> brushSize s \<le> 100"

text \<open>
  The tool a gesture flag belongs to: dragging is only set under the pan tool, drawing
  only under the draw tool.
\<close>

definition flags_match_tool :: "state \<Rightarrow> bool" where
  "flags_match_tool s \<longleftrightarrow>
     (isDragging s \<longrightarrow> activeTool s = Pan) \<and> (isDrawing s \<longrightarrow> activeTool s = Draw)"

text \<open>
  Inputs for the examples: a container of 800 by 600 pixels whose box starts at (10, 20),
  wheel events over the point (200, 150) of the container, and a press and a move of the
  left button over the canvas.
\<close>

definition sample_container :: container_el where
  "sample_container = \<lparr>rect_left = 10, rect_top = 20, clientWidth = 800, clientHeight = 600\<rparr>"

definition sample_wheel :: wheel_event where
  "sample_wheel = \<lparr>clientX = 210, clientY = 170, deltaY = - 200\<rparr>"

definition sample_zoom_in :: wheel_event where
  "sample_zoom_in = \<lparr>clientX = 210, clientY = 170, deltaY = - 1000\<rparr>"

definition sample_fling :: wheel_event where
  "sample_fling = \<lparr>clientX = 210, clientY = 170, deltaY = 100000\<rparr>"

definition sample_press :: mouse_event where
  "sample_press =
     \<lparr>clientX = 110, clientY = 120, button = 0, targetTag = ''CANVAS'',
      movementX = 0, movementY = 0\<rparr>"

definition sample_move :: mouse_event where
  "sample_move =
     \<lparr>clientX = 130, clientY = 160, button = 0, targetTag = ''CANVAS'',
      movementX = 20, movementY = 40\<rparr>"

subsection \<open>Arithmetic on doubles\<close>

text \<open>
  A JavaScript number is a binary64 value: a multiple of a power of two with a
  significand of 53 bits and an exponent from -1022 up, and the multiples of
  \<open>2^-1074\<close> below that (the subnormal numbers). Every operation gives the exact result
  rounded to the nearest such value, a tie going to the even significand.

  \<open>round_even\<close> is the integer nearest to a real, ties to even. \<open>ilog2 n x\<close> is the
  exponent of \<open>x\<close>, the integer \<open>k\<close> with \<open>2^k \<le> x < 2^(k+1)\<close>, found by halving and
  doubling in at most \<open>n\<close> steps; 1100 steps reach every exponent of the format.
  \<open>rnd\<close> is the rounding. A result of magnitude \<open>2^1024\<close> or more is \<open>Infinity\<close> in
  the code and has no value here: the theorems below bound their inputs so that no
  result comes near it.
\<close>

definition round_even :: "real \<Rightarrow> int" where
  "round_even y =
     (let f = \<lfloor>y\<rfloor>; d = y - of_int f
      in if d < 1 / 2 then f else if 1 / 2 < d then f + 1 else if even f then f else f + 1)"

fun ilog2 :: "nat \<Rightarrow> real \<Rightarrow> int" where
  "ilog2 0 x = 0"
| "ilog2 (Suc n) x =
     (if 2 \<le> x then ilog2 n (x / 2) + 1 else if x < 1 then ilog2 n (2 * x) - 1 else 0)"

definition rnd :: "real \<Rightarrow> real" where
  "rnd x =
     (let e = max (ilog2 1100 \<bar>x\<bar>) (- 1022); ulp = 2 powi (e - 52)
      in of_int (round_even (x / ulp)) * ulp)"

text \<open>The four operations of the code on doubles.\<close>

definition fl_add :: "real \<Rightarrow> real \<Rightarrow> real" where
  "fl_add a b = rnd (a + b)"

definition fl_sub :: "real \<Rightarrow> real \<Rightarrow> real" where
  "fl_sub a b = rnd (a - b)"

definition fl_mul :: "real \<Rightarrow> real \<Rightarrow> real" where
  "fl_mul a b = rnd (a * b)"

definition fl_div :: "real \<Rightarrow> real \<Rightarrow> real" where
  "fl_div a b = rnd (a / b)"

text \<open>
  The unit roundoff of the format and half its smallest positive value: the relative
  and the absolute part of the error of one rounding.
\<close>

definition u64 :: real where
  "u64 = 1 / 2 ^ 53"

definition eta64 :: real where
  "eta64 = 1 / 2 ^ 1075"

text \<open>
  \<open>handleWheel\<close> and \<open>getCanvasCoordinates\<close> on doubles: the same branches and the
  same operations in the same order, each one rounded. The literal \<open>0.1\<close> is the double
  nearest to one tenth; negation, \<open>Math.min\<close> and \<open>Math.max\<close> are exact.
\<close>

definition handleWheel_f64 :: "wheel_event \<Rightarrow> state \<Rightarrow> state" where
  "handleWheel_f64 e s =
     (case containerRef s of
        None \<Rightarrow> s
      | Some container \<Rightarrow>
          let delta = fl_div (- deltaY e) 1000;
              newZoom = min (max (rnd (1 / 10)) (fl_add (zoom s) delta)) 5;
              mouseX = fl_sub (clientX e) (rect_left container);
              mouseY = fl_sub (clientY e) (rect_top container)
          in s\<lparr>position :=
                 \<lparr>px = fl_sub mouseX
                         (fl_mul (fl_sub mouseX (px (position s))) (fl_div newZoom (zoom s))),
                  py = fl_sub mouseY
                         (fl_mul (fl_sub mouseY (py (position s))) (fl_div newZoom (zoom s)))\<rparr>,
               zoom := newZoom\<rparr>)"

definition getCanvasCoordinates_f64 :: "state \<Rightarrow> real \<Rightarrow> real \<Rightarrow> point" where
  "getCanvasCoordinates_f64 s cx cy =
     (case canvasRef s of
        None \<Rightarrow> \<lparr>px = 0, py = 0\<rparr>
      | Some cv \<Rightarrow>
          (case containerRef s of
             None \<Rightarrow> \<lparr>px = 0, py = 0\<rparr>
           | Some container \<Rightarrow>
               let containerX = fl_sub cx (rect_left container);
                   containerY = fl_sub cy (rect_top container)
               in \<lparr>px = fl_div (fl_sub containerX (px (position s))) (zoom s),
                   py = fl_div (fl_sub containerY (py (position s))) (zoom s)\<rparr>))"

text \<open>
  The render transform is not code of the component: the browser applies the style
  string. \<open>renderTransform\<close> and \<open>toClient\<close> above are the transform itself;
  \<open>renderTransform_f64\<close> and \<open>toClient_f64\<close> are the same sums and products on
  doubles.
\<close>

definition renderTransform_f64 :: "state \<Rightarrow> point \<Rightarrow> point" where
  "renderTransform_f64 s p =
     \<lparr>px = fl_add (px (position s)) (fl_mul (zoom s) (px p)),
      py = fl_add (py (position s)) (fl_mul (zoom s) (py p))\<rparr>"

definition toClient_f64 :: "container_el \<Rightarrow> point \<Rightarrow> point" where
  "toClient_f64 container p =
     \<lparr>px = fl_add (rect_left container) (px p), py = fl_add (rect_top container) (py p)\<rparr>"

text \<open>
  More inputs for the examples: the sample component after its first re-render, with a
  canvas of the size of the container, and a wheel event over the point (7, 28) of the
  container.
\<close>

definition rendered :: state where
  "rendered = run [Render] (mounted sample_container True False)"

definition sample_nudge :: wheel_event where
  "sample_nudge = \<lparr>clientX = 17, clientY = 48, deltaY = - 200\<rparr>"

section \<open>Properties\<close>

lemmas handler_defs =
  handleWheel_def getCanvasCoordinates_def handleMouseDown_def handleMouseMove_def
  handleMouseUp_def resetView_def renderCanvas_def dispatchLoad_def canvas_onLoad_def
  mounted_def mountEffect_def mount_def initialState_def canvasWidthProp_def
  canvasHeightProp_def defaultContext_def beginPath_def moveTo_def lineTo_def
  set_lineWidth_def stroke_ctx_def clearRect_def toDataURL_def mask_def maskSize_def

lemmas sample_defs =
  sample_container_def sample_wheel_def sample_zoom_in_def sample_fling_def
  sample_press_def sample_move_def

subsection \<open>The invariant of a mounted component\<close>

lemma clamp_lower: "1 / 10 \<le> min (max (1 / 10) v) (5::real)"
  by (simp add: min_def max_def)

lemma clamp_upper: "min (max (1 / 10) v) (5::real) \<le> 5"
  by (simp add: min_def max_def)

lemma handleWheel_zoom_range:
  "1 / 10 \<le> zoom s \<Longrightarrow> zoom s \<le> 5 \<Longrightarrow>
   1 / 10 \<le> zoom (handleWheel e s) \<and> zoom (handleWheel e s) \<le> 5"
  using clamp_lower clamp_upper
  by (cases "containerRef s") (simp_all add: handleWheel_def Let_def)

lemma handleWheel_frame:
  "containerRef (handleWheel e s) = containerRef s \<and> canvasRef (handleWheel e s) = canvasRef s \<and>
   ctx (handleWheel e s) = ctx s \<and> isDrawing (handleWheel e s) = isDrawing s"
  by (cases "containerRef s") (simp_all add: handleWheel_def Let_def)

lemma view_ok_mounted: "view_ok (mounted container has2d cb)"
  by (simp add: view_ok_def mounted_def mountEffect_def mount_def initialState_def mask_def)

lemma view_ok_handleWheel: "view_ok s \<Longrightarrow> view_ok (handleWheel e s)"
  using handleWheel_zoom_range [of s e] handleWheel_frame [of e s]
  by (simp add: view_ok_def mask_def)

lemma view_ok_handleMouseDown: "view_ok s \<Longrightarrow> view_ok (handleMouseDown e s)"
  by (auto simp: view_ok_def handleMouseDown_def mask_def Let_def split: option.splits)

lemma view_ok_handleMouseMove: "view_ok s \<Longrightarrow> view_ok (handleMouseMove e s)"
  by (auto simp: view_ok_def handleMouseMove_def mask_def Let_def split: option.splits)

lemma view_ok_handleMouseUp: "view_ok s \<Longrightarrow> view_ok (handleMouseUp s)"
  by (auto simp: view_ok_def handleMouseUp_def mask_def Let_def split: option.splits)

lemma view_ok_resetView: "view_ok s \<Longrightarrow> view_ok (resetView s)"
  by (auto simp: view_ok_def resetView_def mask_def clearRect_def Let_def split: option.splits)

lemma view_ok_renderCanvas: "view_ok s \<Longrightarrow> view_ok (renderCanvas s)"
  by (auto simp: view_ok_def renderCanvas_def mask_def Let_def split: option.splits)

lemma view_ok_handle: "view_ok s \<Longrightarrow> view_ok (handle e s)"
proof (cases e)
  case (Wheel w)
  then show "view_ok s \<Longrightarrow> ?thesis" by (simp add: view_ok_handleWheel)
next
  case (MouseDown m)
  then show "view_ok s \<Longrightarrow> ?thesis" by (simp add: view_ok_handleMouseDown)
next
  case (MouseMove m)
  then show "view_ok s \<Longrightarrow> ?thesis" by (simp add: view_ok_handleMouseMove)
next
  case MouseUp
  then show "view_ok s \<Longrightarrow> ?thesis" by (simp add: view_ok_handleMouseUp)
next
  case MouseLeave
  then show "view_ok s \<Longrightarrow> ?thesis" by (simp add: view_ok_handleMouseUp)
next
  case ClickReset
  then show "view_ok s \<Longrightarrow> ?thesis" by (simp add: view_ok_resetView)
next
  case Render
  then show "view_ok s \<Longrightarrow> ?thesis" by (simp add: view_ok_renderCanvas)
qed (auto simp: view_ok_def mask_def dispatchLoad_def)

lemma view_ok_run: "view_ok s \<Longrightarrow> view_ok (run es s)"
  by (induction es arbitrary: s) (auto simp: view_ok_handle)

lemma view_ok_reachable: "view_ok (run es (mounted container has2d cb))"
  by (rule view_ok_run [OF view_ok_mounted])

lemma brush_ok_mounted: "brush_ok (mounted container has2d cb)"
  by (simp add: brush_ok_def mounted_def mountEffect_def mount_def initialState_def
      split: option.splits)

lemma brush_ok_handle: "brush_ok s \<Longrightarrow> event_ok e \<Longrightarrow> brush_ok (handle e s)"
  by (cases e)
     (auto simp: brush_ok_def handleWheel_def handleMouseDown_def handleMouseMove_def
        handleMouseUp_def resetView_def renderCanvas_def dispatchLoad_def Let_def
        split: option.splits)

lemma brush_ok_run: "brush_ok s \<Longrightarrow> list_all event_ok es \<Longrightarrow> brush_ok (run es s)"
  by (induction es arbitrary: s) (auto simp: brush_ok_handle)

lemma handleWheel_zoom:
  "containerRef s \<noteq> None \<Longrightarrow>
   zoom (handleWheel e s) = clamp_spec (zoom s + (- deltaY e / 1000)) (1 / 10) 5"
  by (auto simp: handleWheel_def clamp_spec_def Let_def split: option.splits)

subsection \<open>Zoom\<close>

text \<open>
  C5. On a mounted component, after any events, a wheel event with any \<open>deltaY\<close> sets the
  zoom to \<open>clamp(zoom + (-deltaY/1000), 0.1, 5.0)\<close>, and the zoom of every reachable state
  lies between 0.1 and 5.
\<close>

theorem zoom_clamped:
  "zoom (handleWheel e (run es (mounted container has2d cb))) =
     clamp_spec (zoom (run es (mounted container has2d cb)) + (- deltaY e / 1000)) (1 / 10) 5 \<and>
   1 / 10 \<le> zoom (run es (mounted container has2d cb)) \<and>
   zoom (run es (mounted container has2d cb)) \<le> 5"
  using view_ok_reachable [of es container has2d cb]
    handleWheel_zoom [of "run es (mounted container has2d cb)" e]
  by (simp add: view_ok_def)

theorem zoom_clamped_witness:
  "zoom (run [Wheel sample_wheel] (mounted sample_container True False)) = 6 / 5 \<and>
   zoom (handleWheel sample_fling (run [Wheel sample_wheel] (mounted sample_container True False))) =
     clamp_spec (6 / 5 - 100) (1 / 10) 5 \<and>
   clamp_spec (6 / 5 - 100) (1 / 10) 5 = 1 / 10"
  using zoom_clamped [of sample_fling "[Wheel sample_wheel]" sample_container True False]
  by (simp add: handler_defs sample_defs clamp_spec_def)

subsection \<open>The coordinate transform\<close>

lemma anchor_algebra:
  fixes z nz m p :: real
  assumes "z \<noteq> 0" and "nz \<noteq> 0"
  shows "(m - (m - (m - p) * (nz / z))) / nz = (m - p) / z"
  using assms by (simp add: field_simps)

lemma handleWheel_position:
  "containerRef s = Some container \<Longrightarrow>
   position (handleWheel e s) =
     \<lparr>px = (clientX e - rect_left container) -
            ((clientX e - rect_left container) - px (position s)) *
              (zoom (handleWheel e s) / zoom s),
      py = (clientY e - rect_top container) -
            ((clientY e - rect_top container) - py (position s)) *
              (zoom (handleWheel e s) / zoom s)\<rparr>"
  by (simp add: handleWheel_def Let_def)

lemma handleWheel_anchored:
  assumes "1 / 10 \<le> zoom s" and "zoom s \<le> 5"
  shows "getCanvasCoordinates (handleWheel e s) (clientX e) (clientY e) =
         getCanvasCoordinates s (clientX e) (clientY e)"
proof (cases "containerRef s")
  case None
  then show ?thesis by (simp add: handleWheel_def)
next
  case (Some container)
  have z: "zoom s \<noteq> 0" using assms by simp
  have "1 / 10 \<le> zoom (handleWheel e s)"
    using handleWheel_zoom_range [OF assms] by simp
  then have nz: "zoom (handleWheel e s) \<noteq> 0" by simp
  have refs: "containerRef (handleWheel e s) = Some container"
    "canvasRef (handleWheel e s) = canvasRef s"
    using Some handleWheel_frame [of e s] by simp_all
  show ?thesis
  proof (cases "canvasRef s")
    case None
    then show ?thesis using refs by (simp add: getCanvasCoordinates_def)
  next
    case (Some cv)
    then show ?thesis
      using refs \<open>containerRef s = Some container\<close>
        handleWheel_position [OF \<open>containerRef s = Some container\<close>, of e]
        anchor_algebra [OF z nz]
      by (simp add: getCanvasCoordinates_def Let_def)
  qed
qed

subsection \<open>Rounding to a double\<close>

lemma round_even_err: "\<bar>of_int (round_even y) - y\<bar> \<le> 1 / 2"
  unfolding round_even_def Let_def by (auto; linarith)

lemma ilog2_upper: "0 < x \<Longrightarrow> x < 2 powi k \<Longrightarrow> - int n < k \<Longrightarrow> ilog2 n x < k"
proof (induction n arbitrary: x k)
  case 0
  then show ?case by simp
next
  case (Suc n)
  show ?case
  proof (cases "2 \<le> x")
    case True
    have "x / 2 < 2 powi (k - 1)" using Suc.prems(2) by (simp add: power_int_diff)
    moreover have "1 < k"
    proof (rule ccontr)
      assume "\<not> 1 < k"
      then have "k \<le> 1" by simp
      then have "(2::real) powi k \<le> 2 powi 1" by (intro power_int_increasing) auto
      then show False using True Suc.prems(2) by simp
    qed
    ultimately have "ilog2 n (x / 2) < k - 1" using Suc.IH [of "x / 2" "k - 1"] True by simp
    then show ?thesis using True by simp
  next
    case False
    show ?thesis
    proof (cases "x < 1")
      case True
      have "2 * x < 2 powi (k + 1)" using Suc.prems(2) by (simp add: power_int_add)
      then have "ilog2 n (2 * x) < k + 1" using Suc.IH [of "2 * x" "k + 1"] Suc.prems by simp
      then show ?thesis using True False by simp
    next
      case notless: False
      have "0 < k"
      proof (rule ccontr)
        assume "\<not> 0 < k"
        then have "k \<le> 0" by simp
        then have "(2::real) powi k \<le> 2 powi 0" by (intro power_int_increasing) auto
        then show False using notless Suc.prems(2) by simp
      qed
      then show ?thesis using False notless by simp
    qed
  qed
qed

lemma ilog2_lower: "2 powi k \<le> x \<Longrightarrow> k \<le> int n \<Longrightarrow> k \<le> ilog2 n x"
proof (induction n arbitrary: x k)
  case 0
  then show ?case by simp
next
  case (Suc n)
  show ?case
  proof (cases "2 \<le> x")
    case True
    have "2 powi (k - 1) \<le> x / 2" using Suc.prems(1) by (simp add: power_int_diff)
    then have "k - 1 \<le> ilog2 n (x / 2)" using Suc.IH [of "k - 1" "x / 2"] Suc.prems(2) by simp
    then show ?thesis using True by simp
  next
    case False
    show ?thesis
    proof (cases "x < 1")
      case True
      have "k < 0"
      proof (rule ccontr)
        assume "\<not> k < 0"
        then have "(2::real) powi 0 \<le> 2 powi k" by (intro power_int_increasing) auto
        then show False using True Suc.prems(1) by simp
      qed
      have "2 powi (k + 1) \<le> 2 * x" using Suc.prems(1) by (simp add: power_int_add)
      then have "k + 1 \<le> ilog2 n (2 * x)" using Suc.IH [of "k + 1" "2 * x"] \<open>k < 0\<close> by simp
      then show ?thesis using True False by simp
    next
      case notless: False
      have "k \<le> 0"
      proof (rule ccontr)
        assume "\<not> k \<le> 0"
        then have "(2::real) powi 1 \<le> 2 powi k" by (intro power_int_increasing) auto
        then show False using False Suc.prems(1) by simp
      qed
      then show ?thesis using False notless by simp
    qed
  qed
qed


lemma ilog2_zero: "ilog2 n 0 = - int n"
  by (induction n) simp_all

lemma ilog2_eq:
  assumes "2 powi k \<le> x" and "x < 2 powi (k + 1)" and "k \<le> int n" and "- int n \<le> k"
  shows "ilog2 n x = k"
proof -
  have "0 < x" using assms(1) by (smt (verit) zero_less_power_int)
  then have "ilog2 n x < k + 1" using assms(2,4) by (intro ilog2_upper) auto
  moreover have "k \<le> ilog2 n x" using assms(1,3) by (rule ilog2_lower)
  ultimately show ?thesis by simp
qed

lemma rnd_eqI:
  assumes "2 powi e \<le> \<bar>x\<bar>" and "\<bar>x\<bar> < 2 powi (e + 1)" and "- 1022 \<le> e" and "e \<le> 1023"
    and "round_even (x / 2 powi (e - 52)) = k"
  shows "rnd x = of_int k * 2 powi (e - 52)"
proof -
  have "ilog2 1100 \<bar>x\<bar> = e" using assms(1-4) by (intro ilog2_eq) auto
  then show ?thesis using assms(3,5) by (simp add: rnd_def Let_def max_def)
qed

lemma rnd_err: "\<bar>rnd x - x\<bar> \<le> 2 powi (- 53) * \<bar>x\<bar> + 2 powi (- 1075)"
proof -
  define E where "E = ilog2 1100 \<bar>x\<bar>"
  define e where "e = max E (- 1022)"
  define ulp :: real where "ulp = 2 powi (e - 52)"
  have ulp_pos: "0 < ulp" by (simp add: ulp_def)
  have r: "rnd x = of_int (round_even (x / ulp)) * ulp"
    by (simp add: rnd_def Let_def E_def e_def ulp_def)
  have "rnd x - x = (of_int (round_even (x / ulp)) - x / ulp) * ulp"
    using ulp_pos by (simp add: r field_simps)
  then have "\<bar>rnd x - x\<bar> = \<bar>of_int (round_even (x / ulp)) - x / ulp\<bar> * ulp"
    using ulp_pos by (simp add: abs_mult)
  also have "\<dots> \<le> (1 / 2) * ulp"
    using round_even_err [of "x / ulp"] ulp_pos by (intro mult_right_mono) auto
  also have "\<dots> = 2 powi (e - 53)"
    by (simp add: ulp_def power_int_diff)
  finally have half: "\<bar>rnd x - x\<bar> \<le> 2 powi (e - 53)" .
  show ?thesis
  proof (cases "- 1022 \<le> E")
    case True
    then have "e = E" by (simp add: e_def)
    have "2 powi E \<le> \<bar>x\<bar>"
    proof (rule ccontr)
      assume "\<not> 2 powi E \<le> \<bar>x\<bar>"
      then have lt: "\<bar>x\<bar> < 2 powi E" by simp
      show False
      proof (cases "x = 0")
        case True
        then show ?thesis using \<open>- 1022 \<le> E\<close> by (simp add: E_def ilog2_zero)
      next
        case False
        then have "ilog2 1100 \<bar>x\<bar> < E" using lt \<open>- 1022 \<le> E\<close> by (intro ilog2_upper) auto
        then show ?thesis by (simp add: E_def)
      qed
    qed
    then have "2 powi (e - 53) \<le> 2 powi (- 53) * \<bar>x\<bar>"
      using \<open>e = E\<close> by (simp add: power_int_diff power_int_minus field_simps)
    moreover have "(0::real) \<le> 2 powi (- 1075)" by simp
    ultimately show ?thesis using half by linarith
  next
    case False
    then have "e = - 1022" by (simp add: e_def)
    then have "2 powi (e - 53) = (2::real) powi (- 1075)" by simp
    moreover have "0 \<le> 2 powi (- 53) * \<bar>x\<bar>" by simp
    ultimately show ?thesis using half by linarith
  qed
qed

text \<open>
  The error of one rounding, and of the roundings in the two computations of the
  coordinate transform, for a zoom between 0.1 and 5 and a cursor and an offset of
  magnitude at most \<open>2^20\<close>.
\<close>

lemma eta64_bounds: "0 \<le> eta64" "eta64 \<le> 1 / 2 ^ 100"
proof -
  show "0 \<le> eta64" by (simp add: eta64_def)
  have "(2::real) ^ 100 \<le> 2 ^ 1075" by (rule power_increasing) simp_all
  then show "eta64 \<le> 1 / 2 ^ 100"
    unfolding eta64_def by (intro divide_left_mono) simp_all
qed

lemma u64_pos: "0 \<le> u64"
  by (simp add: u64_def)

lemma rnd_err_bound:
  assumes "\<bar>t\<bar> \<le> B"
  shows "\<bar>rnd t - t\<bar> \<le> B * u64 + eta64"
proof -
  have "\<bar>rnd t - t\<bar> \<le> 2 powi (- 53) * \<bar>t\<bar> + 2 powi (- 1075)" by (rule rnd_err)
  also have "\<dots> = \<bar>t\<bar> * u64 + eta64"
    by (simp add: power_int_minus u64_def eta64_def field_simps)
  also have "\<dots> \<le> B * u64 + eta64"
    using assms u64_pos by (simp add: mult_right_mono)
  finally show ?thesis .
qed

lemma quotient_bound:
  fixes a z :: real
  assumes "1 / 10 \<le> z" and "\<bar>a\<bar> \<le> A"
  shows "\<bar>a / z\<bar> \<le> 10 * A"
proof -
  have z: "0 < z" using assms(1) by simp
  have "\<bar>a\<bar> \<le> 10 * A * z"
  proof -
    have "0 \<le> A" using assms(2) by simp
    then have "A * 1 \<le> A * (10 * z)" using assms(1) by (intro mult_left_mono) auto
    then show ?thesis using assms(2) by simp
  qed
  then show ?thesis using z by (simp add: field_simps)
qed

lemma rnd_err_scaled:
  assumes "1 / 10 \<le> nz" and "\<bar>x / nz\<bar> \<le> K"
  shows "\<bar>rnd x / nz - x / nz\<bar> \<le> K * u64 + 10 * eta64"
proof -
  have nz: "0 < nz" using assms(1) by simp
  have "\<bar>rnd x - x\<bar> \<le> \<bar>x\<bar> * u64 + eta64"
    by (rule rnd_err_bound) simp
  then have "\<bar>rnd x - x\<bar> / nz \<le> (\<bar>x\<bar> * u64 + eta64) / nz"
    using nz by (simp add: divide_right_mono)
  also have "\<dots> = \<bar>x / nz\<bar> * u64 + eta64 / nz"
    using nz by (simp add: add_divide_distrib)
  also have "\<dots> \<le> K * u64 + 10 * eta64"
  proof -
    have "\<bar>eta64 / nz\<bar> \<le> 10 * eta64"
      using assms(1) eta64_bounds(1) by (intro quotient_bound) auto
    then have "eta64 / nz \<le> 10 * eta64" by linarith
    moreover have "\<bar>x / nz\<bar> * u64 \<le> K * u64"
      using assms(2) u64_pos by (rule mult_right_mono)
    ultimately show ?thesis by linarith
  qed
  finally have "\<bar>rnd x - x\<bar> / nz \<le> K * u64 + 10 * eta64" .
  moreover have "\<bar>rnd x / nz - x / nz\<bar> = \<bar>rnd x - x\<bar> / nz"
    using nz by (simp add: diff_divide_distrib [symmetric])
  ultimately show ?thesis by simp
qed

lemma rnd_div_err:
  assumes "0 < z"
  shows "\<bar>z * rnd (a / z) - a\<bar> \<le> \<bar>a\<bar> * u64 + z * eta64"
proof -
  have "\<bar>rnd (a / z) - a / z\<bar> \<le> \<bar>a / z\<bar> * u64 + eta64"
    by (rule rnd_err_bound) simp
  then have "z * \<bar>rnd (a / z) - a / z\<bar> \<le> z * (\<bar>a / z\<bar> * u64 + eta64)"
    using assms by (intro mult_left_mono) auto
  also have "\<dots> = \<bar>a\<bar> * u64 + z * eta64"
    using assms by (simp add: field_simps)
  finally have "z * \<bar>rnd (a / z) - a / z\<bar> \<le> \<bar>a\<bar> * u64 + z * eta64" .
  moreover have "\<bar>z * rnd (a / z) - a\<bar> = z * \<bar>rnd (a / z) - a / z\<bar>"
  proof -
    have "z * rnd (a / z) - a = z * (rnd (a / z) - a / z)"
      using assms by (simp add: field_simps)
    then show ?thesis using assms by (simp add: abs_mult)
  qed
  ultimately show ?thesis by simp
qed

lemma inverse_error:
  fixes t p z :: real
  assumes "1 / 10 \<le> z" and "z \<le> 5" and "\<bar>t\<bar> \<le> 2 ^ 20" and "\<bar>p\<bar> \<le> 2 ^ 20"
  shows "\<bar>p + z * rnd (rnd (rnd t - p) / z) - t\<bar> \<le> 1 / 2 ^ 30"
proof -
  define m where "m = rnd t"
  define a where "a = rnd (m - p)"
  note num = u64_def eta64_bounds
  have e1: "\<bar>m - t\<bar> \<le> 2 ^ 20 * u64 + eta64"
    unfolding m_def using assms(3) by (rule rnd_err_bound)
  have mb: "\<bar>m\<bar> \<le> 2 ^ 20 + 1" using e1 assms(3) eta64_bounds by (simp add: u64_def)
  have mp: "\<bar>m - p\<bar> \<le> 2 ^ 21 + 1" using mb assms(4) by simp
  have e2: "\<bar>a - (m - p)\<bar> \<le> (2 ^ 21 + 1) * u64 + eta64"
    unfolding a_def using mp by (rule rnd_err_bound)
  have ab: "\<bar>a\<bar> \<le> 2 ^ 21 + 2" using e2 mp eta64_bounds by (simp add: u64_def)
  have z: "0 < z" using assms(1) by simp
  have "\<bar>z * rnd (a / z) - a\<bar> \<le> \<bar>a\<bar> * u64 + z * eta64"
    using z by (rule rnd_div_err)
  also have "\<dots> \<le> (2 ^ 21 + 2) * u64 + 5 * eta64"
    using ab assms(2) u64_pos eta64_bounds(1) by (intro add_mono mult_right_mono) auto
  finally have e3: "\<bar>z * rnd (a / z) - a\<bar> \<le> (2 ^ 21 + 2) * u64 + 5 * eta64" .
  have "p + z * rnd (a / z) - t = (z * rnd (a / z) - a) + (a - (m - p)) + (m - t)" by simp
  then have "\<bar>p + z * rnd (a / z) - t\<bar> \<le>
      \<bar>z * rnd (a / z) - a\<bar> + \<bar>a - (m - p)\<bar> + \<bar>m - t\<bar>" by linarith
  then have "\<bar>p + z * rnd (a / z) - t\<bar> \<le> 1 / 2 ^ 30"
    using e1 e2 e3 eta64_bounds by (simp add: u64_def)
  then show ?thesis by (simp add: a_def m_def)
qed


lemma anchor_error:
  fixes t p z nz :: real
  assumes "1 / 10 \<le> z" and "z \<le> 5" and "1 / 10 \<le> nz" and "nz \<le> 5"
    and "\<bar>t\<bar> \<le> 2 ^ 20" and "\<bar>p\<bar> \<le> 2 ^ 20"
  shows "\<bar>rnd (rnd (rnd t - rnd (rnd t - rnd (rnd (rnd t - p) * rnd (nz / z)))) / nz) -
          rnd (rnd (rnd t - p) / z)\<bar> \<le> 1 / 2 ^ 25"
proof -
  define m where "m = rnd t"
  define a where "a = rnd (m - p)"
  define r where "r = rnd (nz / z)"
  define b where "b = rnd (a * r)"
  define p' where "p' = rnd (m - b)"
  define a2 where "a2 = rnd (m - p')"
  define rh where "rh = r / nz"
  define arh where "arh = a * rh"
  define az where "az = a / z"
  define bh where "bh = b / nz"
  define mh where "mh = m / nz"
  define ph where "ph = p' / nz"
  define a2h where "a2h = a2 / nz"
  have zp: "0 < z" and nzp: "0 < nz" using assms(1,3) by simp_all
  have e1: "\<bar>m - t\<bar> \<le> 2 ^ 20 * u64 + eta64"
    unfolding m_def using assms(5) by (rule rnd_err_bound)
  have mb: "\<bar>m\<bar> \<le> 1048577" using e1 assms(5) eta64_bounds by (simp add: u64_def)
  have mp: "\<bar>m - p\<bar> \<le> 2097153" using mb assms(6) by simp
  have e2: "\<bar>a - (m - p)\<bar> \<le> 2097153 * u64 + eta64"
    unfolding a_def using mp by (rule rnd_err_bound)
  have ab: "\<bar>a\<bar> \<le> 2097154" using e2 mp eta64_bounds by (simp add: u64_def)
  \<comment> \<open>the ratio of the zooms\<close>
  have "\<bar>(nz / z) / nz\<bar> \<le> 10 * 1"
  proof -
    have "(nz / z) / nz = 1 / z" using nzp by simp
    moreover have "\<bar>1 / z\<bar> \<le> 10 * 1" using assms(1) by (intro quotient_bound) auto
    ultimately show ?thesis by simp
  qed
  then have "\<bar>rnd (nz / z) / nz - (nz / z) / nz\<bar> \<le> 10 * 1 * u64 + 10 * eta64"
    using assms(3) by (intro rnd_err_scaled)
  moreover have "(nz / z) / nz = 1 / z" using nzp by simp
  ultimately have s1: "\<bar>rh - 1 / z\<bar> \<le> 10 * u64 + 10 * eta64"
    by (simp add: rh_def r_def)
  have azb: "\<bar>az\<bar> \<le> 10 * 2097154"
    unfolding az_def using assms(1) ab by (rule quotient_bound)
  have d1: "\<bar>arh - az\<bar> \<le> 2097154 * (10 * u64 + 10 * eta64)"
  proof -
    have "arh - az = a * (rh - 1 / z)" by (simp add: arh_def az_def right_diff_distrib)
    then have "\<bar>arh - az\<bar> = \<bar>a\<bar> * \<bar>rh - 1 / z\<bar>" by (simp add: abs_mult)
    also have "\<dots> \<le> 2097154 * (10 * u64 + 10 * eta64)"
      using ab s1 by (intro mult_mono) auto
    finally show ?thesis .
  qed
  have arhb: "\<bar>arh\<bar> \<le> 20971541" using d1 azb eta64_bounds by (simp add: u64_def)
  \<comment> \<open>the product\<close>
  have "(a * r) / nz = arh" by (simp add: arh_def rh_def)
  then have "\<bar>(a * r) / nz\<bar> \<le> 20971541" using arhb by simp
  then have "\<bar>rnd (a * r) / nz - (a * r) / nz\<bar> \<le> 20971541 * u64 + 10 * eta64"
    using assms(3) by (intro rnd_err_scaled)
  then have s2: "\<bar>bh - arh\<bar> \<le> 20971541 * u64 + 10 * eta64"
    using \<open>(a * r) / nz = arh\<close> by (simp add: bh_def b_def)
  have bhb: "\<bar>bh\<bar> \<le> 20971542" using s2 arhb eta64_bounds by (simp add: u64_def)
  \<comment> \<open>the new offset\<close>
  have mhb: "\<bar>mh\<bar> \<le> 10 * 1048577"
    unfolding mh_def using assms(3) mb by (rule quotient_bound)
  have mbh: "(m - b) / nz = mh - bh" by (simp add: mh_def bh_def diff_divide_distrib)
  have "\<bar>(m - b) / nz\<bar> \<le> 31457312" using mhb bhb mbh by simp
  then have "\<bar>rnd (m - b) / nz - (m - b) / nz\<bar> \<le> 31457312 * u64 + 10 * eta64"
    using assms(3) by (intro rnd_err_scaled)
  then have s3: "\<bar>ph - (mh - bh)\<bar> \<le> 31457312 * u64 + 10 * eta64"
    using mbh by (simp add: ph_def p'_def)
  \<comment> \<open>the coordinate after the wheel\<close>
  have mph: "(m - p') / nz = mh - ph" by (simp add: mh_def ph_def diff_divide_distrib)
  have "\<bar>mh - ph\<bar> \<le> 20971543" using s3 bhb eta64_bounds by (simp add: u64_def)
  then have mphb: "\<bar>(m - p') / nz\<bar> \<le> 20971543" using mph by simp
  then have "\<bar>rnd (m - p') / nz - (m - p') / nz\<bar> \<le> 20971543 * u64 + 10 * eta64"
    using assms(3) by (intro rnd_err_scaled)
  then have s4: "\<bar>a2h - (mh - ph)\<bar> \<le> 20971543 * u64 + 10 * eta64"
    using mph by (simp add: a2h_def a2_def)
  have a2hb: "\<bar>a2h\<bar> \<le> 20971544"
    using s4 \<open>\<bar>mh - ph\<bar> \<le> 20971543\<close> eta64_bounds by (simp add: u64_def)
  have s5: "\<bar>rnd a2h - a2h\<bar> \<le> 20971544 * u64 + eta64"
    using a2hb by (rule rnd_err_bound)
  have s6: "\<bar>rnd az - az\<bar> \<le> 10 * 2097154 * u64 + eta64"
    using azb by (rule rnd_err_bound)
  have "rnd a2h - rnd az =
      (rnd a2h - a2h) + (a2h - (mh - ph)) - (ph - (mh - bh)) + (bh - arh) + (arh - az) -
      (rnd az - az)" by simp
  then have "\<bar>rnd a2h - rnd az\<bar> \<le>
      \<bar>rnd a2h - a2h\<bar> + \<bar>a2h - (mh - ph)\<bar> + \<bar>ph - (mh - bh)\<bar> + \<bar>bh - arh\<bar> + \<bar>arh - az\<bar> +
      \<bar>rnd az - az\<bar>" by linarith
  then have "\<bar>rnd a2h - rnd az\<bar> \<le> 1 / 2 ^ 25"
    using s2 s3 s4 s5 s6 d1 eta64_bounds by (simp add: u64_def)
  then show ?thesis
    by (simp add: a2h_def a2_def p'_def b_def r_def a_def m_def az_def)
qed

text \<open>The roundings of the examples.\<close>

lemma rnd_tenth: "rnd (1 / 10) = 3602879701896397 / 36028797018963968"
  using rnd_eqI [of "- 4" "1 / 10" "7205759403792794"]
  by (simp add: round_even_def Let_def)

lemma rnd_fifth: "rnd (1 / 5) = 3602879701896397 / 18014398509481984"
  using rnd_eqI [of "- 3" "1 / 5" "7205759403792794"]
  by (simp add: round_even_def Let_def)

lemma rnd_zoom_sum: "rnd (21617278211378381 / 18014398509481984) = 5404319552844595 / 4503599627370496"
  using rnd_eqI [of "0" "21617278211378381 / 18014398509481984" "5404319552844595"]
  by (simp add: round_even_def Let_def)

lemma rnd_zoom: "rnd (5404319552844595 / 4503599627370496) = 5404319552844595 / 4503599627370496"
  using rnd_eqI [of "0" "5404319552844595 / 4503599627370496" "5404319552844595"]
  by (simp add: round_even_def Let_def)

lemma rnd_nudge_mx: "rnd (7) = 7"
  using rnd_eqI [of "2" "7" "7881299347898368"]
  by (simp add: round_even_def Let_def)

lemma rnd_nudge_bx: "rnd (37830236869912165 / 4503599627370496) = 4728779608739021 / 562949953421312"
  using rnd_eqI [of "3" "37830236869912165 / 4503599627370496" "4728779608739021"]
  by (simp add: round_even_def Let_def)

lemma rnd_nudge_px: "rnd (- (788129934789837 / 562949953421312)) = - (788129934789837 / 562949953421312)"
  using rnd_eqI [of "0" "- (788129934789837 / 562949953421312)" "- 6305039478318696"]
  by (simp add: round_even_def Let_def)

lemma rnd_nudge_ax: "rnd (4728779608739021 / 562949953421312) = 4728779608739021 / 562949953421312"
  using rnd_eqI [of "3" "4728779608739021 / 562949953421312" "4728779608739021"]
  by (simp add: round_even_def Let_def)

lemma rnd_nudge_afterx: "rnd (37830236869912168 / 5404319552844595) = 7881299347898369 / 1125899906842624"
  using rnd_eqI [of "2" "37830236869912168 / 5404319552844595" "7881299347898369"]
  by (simp add: round_even_def Let_def)

lemma rnd_nudge_my: "rnd (28) = 28"
  using rnd_eqI [of "4" "28" "7881299347898368"]
  by (simp add: round_even_def Let_def)

lemma rnd_nudge_by: "rnd (37830236869912165 / 1125899906842624) = 4728779608739021 / 140737488355328"
  using rnd_eqI [of "5" "37830236869912165 / 1125899906842624" "4728779608739021"]
  by (simp add: round_even_def Let_def)

lemma rnd_nudge_py: "rnd (- (788129934789837 / 140737488355328)) = - (788129934789837 / 140737488355328)"
  using rnd_eqI [of "2" "- (788129934789837 / 140737488355328)" "- 6305039478318696"]
  by (simp add: round_even_def Let_def)

lemma rnd_nudge_ay: "rnd (4728779608739021 / 140737488355328) = 4728779608739021 / 140737488355328"
  using rnd_eqI [of "5" "4728779608739021 / 140737488355328" "4728779608739021"]
  by (simp add: round_even_def Let_def)

lemma rnd_nudge_aftery: "rnd (151320947479648672 / 5404319552844595) = 7881299347898369 / 281474976710656"
  using rnd_eqI [of "4" "151320947479648672 / 5404319552844595" "7881299347898369"]
  by (simp add: round_even_def Let_def)

lemma rnd_wheel_mx: "rnd (200) = 200"
  using rnd_eqI [of "7" "200" "7036874417766400"]
  by (simp add: round_even_def Let_def)

lemma rnd_wheel_bx: "rnd (135107988821114875 / 562949953421312) = 240"
  using rnd_eqI [of "7" "135107988821114875 / 562949953421312" "8444249301319680"]
  by (simp add: round_even_def Let_def)

lemma rnd_wheel_px: "rnd (- 40) = - 40"
  using rnd_eqI [of "5" "- 40" "- 5629499534213120"]
  by (simp add: round_even_def Let_def)

lemma rnd_wheel_my: "rnd (150) = 150"
  using rnd_eqI [of "7" "150" "5277655813324800"]
  by (simp add: round_even_def Let_def)

lemma rnd_wheel_by: "rnd (405323966463344625 / 2251799813685248) = 180"
  using rnd_eqI [of "7" "405323966463344625 / 2251799813685248" "6333186975989760"]
  by (simp add: round_even_def Let_def)

lemma rnd_wheel_py: "rnd (- 30) = - 30"
  using rnd_eqI [of "4" "- 30" "- 8444249301319680"]
  by (simp add: round_even_def Let_def)

lemma rnd_inv_mx: "rnd (1) = 1"
  using rnd_eqI [of "0" "1" "4503599627370496"]
  by (simp add: round_even_def Let_def)

lemma rnd_inv_ax: "rnd (41) = 41"
  using rnd_eqI [of "5" "41" "5770237022568448"]
  by (simp add: round_even_def Let_def)

lemma rnd_inv_qx: "rnd (184647584722190336 / 5404319552844595) = 2404265426070187 / 70368744177664"
  using rnd_eqI [of "5" "184647584722190336 / 5404319552844595" "4808530852140374"]
  by (simp add: round_even_def Let_def)

lemma rnd_fwd_zqx: "rnd (12993418652339352685927973589265 / 316912650057057350374175801344) = 5770237022568449 / 140737488355328"
  using rnd_eqI [of "5" "12993418652339352685927973589265 / 316912650057057350374175801344" "5770237022568449"]
  by (simp add: round_even_def Let_def)

lemma rnd_fwd_sx: "rnd (140737488355329 / 140737488355328) = 140737488355329 / 140737488355328"
  using rnd_eqI [of "0" "140737488355329 / 140737488355328" "4503599627370528"]
  by (simp add: round_even_def Let_def)

lemma rnd_fwd_cx: "rnd (1548112371908609 / 140737488355328) = 1548112371908609 / 140737488355328"
  using rnd_eqI [of "3" "1548112371908609 / 140737488355328" "6192449487634436"]
  by (simp add: round_even_def Let_def)

lemma rnd_inv_ay: "rnd (58) = 58"
  using rnd_eqI [of "5" "58" "8162774324609024"]
  by (simp add: round_even_def Let_def)

lemma rnd_inv_qy: "rnd (261208778387488768 / 5404319552844595) = 6802311937174187 / 140737488355328"
  using rnd_eqI [of "5" "261208778387488768 / 5404319552844595" "6802311937174187"]
  by (simp add: round_even_def Let_def)

lemma rnd_fwd_zqy: "rnd (36761867406618653084381856469265 / 633825300114114700748351602688) = 58"
  using rnd_eqI [of "5" "36761867406618653084381856469265 / 633825300114114700748351602688" "8162774324609024"]
  by (simp add: round_even_def Let_def)

lemma rnd_fwd_cy: "rnd (48) = 48"
  using rnd_eqI [of "5" "48" "6755399441055744"]
  by (simp add: round_even_def Let_def)

lemmas fl_defs = fl_add_def fl_sub_def fl_mul_def fl_div_def

lemmas rnd_samples =
  rnd_tenth rnd_fifth rnd_zoom_sum rnd_zoom
  rnd_nudge_mx rnd_nudge_bx rnd_nudge_px rnd_nudge_ax rnd_nudge_afterx
  rnd_nudge_my rnd_nudge_by rnd_nudge_py rnd_nudge_ay rnd_nudge_aftery
  rnd_wheel_mx rnd_wheel_bx rnd_wheel_px rnd_wheel_my rnd_wheel_by rnd_wheel_py
  rnd_inv_mx rnd_inv_ax rnd_inv_qx rnd_fwd_zqx rnd_fwd_sx rnd_fwd_cx
  rnd_inv_ay rnd_inv_qy rnd_fwd_zqy rnd_fwd_cy

lemma rendered_eq:
  "rendered =
     \<lparr>zoom = 1, position = \<lparr>px = 0, py = 0\<rparr>, isDragging = False, isDrawing = False,
      brushSize = 20, activeTool = Pan, containerRef = Some sample_container,
      canvasRef = Some \<lparr>width = 800, height = 600, bitmap = []\<rparr>,
      ctx = Some defaultContext, onMaskChange = False, maskChanges = []\<rparr>"
  by (simp add: rendered_def handler_defs sample_defs)

lemma nudged_eq:
  "handleWheel_f64 sample_nudge rendered =
     rendered\<lparr>position := \<lparr>px = - (788129934789837 / 562949953421312),
                               py = - (788129934789837 / 140737488355328)\<rparr>,
              zoom := 5404319552844595 / 4503599627370496\<rparr>"
  by (simp add: rendered_eq handleWheel_f64_def sample_nudge_def sample_container_def fl_defs
      rnd_samples Let_def)

lemma zoomed_eq:
  "handleWheel_f64 sample_wheel rendered =
     rendered\<lparr>position := \<lparr>px = - 40, py = - 30\<rparr>,
              zoom := 5404319552844595 / 4503599627370496\<rparr>"
  by (simp add: rendered_eq handleWheel_f64_def sample_wheel_def sample_container_def fl_defs
      rnd_samples Let_def)

lemma newZoom_range:
  "1 / 10 \<le> min (max (rnd (1 / 10)) v) 5 \<and> min (max (rnd (1 / 10)) v) 5 \<le> 5"
  by (simp add: rnd_tenth min_def max_def)

lemma handleWheel_f64_zoom_range:
  "containerRef s = Some container \<Longrightarrow>
   1 / 10 \<le> zoom (handleWheel_f64 e s) \<and> zoom (handleWheel_f64 e s) \<le> 5"
  using newZoom_range by (simp add: handleWheel_f64_def Let_def)

lemma getCanvasCoordinates_inverse_exact:
  "1 / 10 \<le> zoom s \<Longrightarrow> containerRef s = Some container \<Longrightarrow> canvasRef s = Some cv \<Longrightarrow>
   toClient container (renderTransform s (getCanvasCoordinates s cx cy)) = \<lparr>px = cx, py = cy\<rparr>"
  by (simp add: getCanvasCoordinates_def renderTransform_def toClient_def Let_def)

subsection \<open>Cursor-anchored zoom\<close>

text \<open>
  C3, as the specification has it, fails on doubles. From zoom 1 and offset (0, 0), in
  the container at (10, 20), a wheel event with \<open>deltaY = -200\<close> at the client point
  (17, 48): the coordinate under the cursor is (7, 28) before the handler and
  (7.000000000000001, 28.000000000000004) after it.
\<close>

theorem wheel_moves_point_under_cursor_f64:
  "zoom rendered = 1 \<and> position rendered = \<lparr>px = 0, py = 0\<rparr> \<and>
   getCanvasCoordinates_f64 rendered (clientX sample_nudge) (clientY sample_nudge) =
     \<lparr>px = 7, py = 28\<rparr> \<and>
   getCanvasCoordinates_f64 (handleWheel_f64 sample_nudge rendered)
       (clientX sample_nudge) (clientY sample_nudge) =
     \<lparr>px = 7 + 1 / 2 ^ 50, py = 28 + 1 / 2 ^ 48\<rparr> \<and>
   getCanvasCoordinates_f64 (handleWheel_f64 sample_nudge rendered)
       (clientX sample_nudge) (clientY sample_nudge) \<noteq>
     getCanvasCoordinates_f64 rendered (clientX sample_nudge) (clientY sample_nudge)"
  by (simp add: nudged_eq,
      simp add: rendered_eq getCanvasCoordinates_f64_def sample_nudge_def sample_container_def
        fl_defs rnd_samples Let_def)

text \<open>
  C3, as the code has it. Cursor-anchored zoom up to rounding: with both refs set, a
  zoom between 0.1 and 5, and a cursor (relative to the container) and an offset of
  magnitude at most \<open>2^20\<close> on each axis, the coordinate under the cursor that the code
  computes on doubles after the wheel handler differs from the one before it by at most
  \<open>2^-25\<close> on each axis. In exact arithmetic the two are equal, and the new offset is
  \<open>cursor - (cursor - offset) * (newZoom / zoom)\<close> on each axis.
\<close>

theorem wheel_keeps_point_under_cursor_within_rounding:
  assumes "1 / 10 \<le> zoom s" and "zoom s \<le> 5"
    and "containerRef s = Some container" and "canvasRef s = Some cv"
    and "\<bar>clientX e - rect_left container\<bar> \<le> 2 ^ 20"
    and "\<bar>clientY e - rect_top container\<bar> \<le> 2 ^ 20"
    and "\<bar>px (position s)\<bar> \<le> 2 ^ 20" and "\<bar>py (position s)\<bar> \<le> 2 ^ 20"
  shows "\<bar>px (getCanvasCoordinates_f64 (handleWheel_f64 e s) (clientX e) (clientY e)) -
          px (getCanvasCoordinates_f64 s (clientX e) (clientY e))\<bar> \<le> 1 / 2 ^ 25 \<and>
         \<bar>py (getCanvasCoordinates_f64 (handleWheel_f64 e s) (clientX e) (clientY e)) -
          py (getCanvasCoordinates_f64 s (clientX e) (clientY e))\<bar> \<le> 1 / 2 ^ 25 \<and>
         getCanvasCoordinates (handleWheel e s) (clientX e) (clientY e) =
           getCanvasCoordinates s (clientX e) (clientY e) \<and>
         position (handleWheel e s) =
           \<lparr>px = (clientX e - rect_left container) -
                  ((clientX e - rect_left container) - px (position s)) *
                    (zoom (handleWheel e s) / zoom s),
            py = (clientY e - rect_top container) -
                  ((clientY e - rect_top container) - py (position s)) *
                    (zoom (handleWheel e s) / zoom s)\<rparr>"
proof -
  define nz where "nz = zoom (handleWheel_f64 e s)"
  have nz: "1 / 10 \<le> nz" "nz \<le> 5"
    using handleWheel_f64_zoom_range [OF assms(3), of e] by (simp_all add: nz_def)
  have after:
    "getCanvasCoordinates_f64 (handleWheel_f64 e s) (clientX e) (clientY e) =
       \<lparr>px = rnd (rnd (rnd (clientX e - rect_left container) -
                 rnd (rnd (clientX e - rect_left container) -
                   rnd (rnd (rnd (clientX e - rect_left container) - px (position s)) *
                     rnd (nz / zoom s)))) / nz),
        py = rnd (rnd (rnd (clientY e - rect_top container) -
                 rnd (rnd (clientY e - rect_top container) -
                   rnd (rnd (rnd (clientY e - rect_top container) - py (position s)) *
                     rnd (nz / zoom s)))) / nz)\<rparr>"
    using assms(3,4)
    by (simp add: nz_def handleWheel_f64_def getCanvasCoordinates_f64_def fl_defs Let_def)
  have before:
    "getCanvasCoordinates_f64 s (clientX e) (clientY e) =
       \<lparr>px = rnd (rnd (rnd (clientX e - rect_left container) - px (position s)) / zoom s),
        py = rnd (rnd (rnd (clientY e - rect_top container) - py (position s)) / zoom s)\<rparr>"
    using assms(3,4) by (simp add: getCanvasCoordinates_f64_def fl_defs Let_def)
  have "\<bar>px (getCanvasCoordinates_f64 (handleWheel_f64 e s) (clientX e) (clientY e)) -
         px (getCanvasCoordinates_f64 s (clientX e) (clientY e))\<bar> \<le> 1 / 2 ^ 25"
    using anchor_error [OF assms(1,2) nz assms(5,7)] by (simp add: after before)
  moreover have "\<bar>py (getCanvasCoordinates_f64 (handleWheel_f64 e s) (clientX e) (clientY e)) -
         py (getCanvasCoordinates_f64 s (clientX e) (clientY e))\<bar> \<le> 1 / 2 ^ 25"
    using anchor_error [OF assms(1,2) nz assms(6,8)] by (simp add: after before)
  moreover have "getCanvasCoordinates (handleWheel e s) (clientX e) (clientY e) =
      getCanvasCoordinates s (clientX e) (clientY e)"
    using assms(1,2) by (rule handleWheel_anchored)
  ultimately show ?thesis using handleWheel_position [OF assms(3), of e] by simp
qed

theorem wheel_keeps_point_under_cursor_within_rounding_witness:
  "1 / 10 \<le> zoom rendered \<and> zoom rendered \<le> 5 \<and>
   containerRef rendered = Some sample_container \<and>
   canvasRef rendered = Some \<lparr>width = 800, height = 600, bitmap = []\<rparr> \<and>
   \<bar>clientX sample_nudge - rect_left sample_container\<bar> \<le> 2 ^ 20 \<and>
   \<bar>clientY sample_nudge - rect_top sample_container\<bar> \<le> 2 ^ 20 \<and>
   \<bar>px (position rendered)\<bar> \<le> 2 ^ 20 \<and> \<bar>py (position rendered)\<bar> \<le> 2 ^ 20 \<and>
   \<bar>px (getCanvasCoordinates_f64 (handleWheel_f64 sample_nudge rendered)
          (clientX sample_nudge) (clientY sample_nudge)) -
     px (getCanvasCoordinates_f64 rendered (clientX sample_nudge) (clientY sample_nudge))\<bar> \<le>
     1 / 2 ^ 25 \<and>
   \<bar>py (getCanvasCoordinates_f64 (handleWheel_f64 sample_nudge rendered)
          (clientX sample_nudge) (clientY sample_nudge)) -
     py (getCanvasCoordinates_f64 rendered (clientX sample_nudge) (clientY sample_nudge))\<bar> \<le>
     1 / 2 ^ 25 \<and>
   getCanvasCoordinates (handleWheel sample_nudge rendered) 17 48 = \<lparr>px = 7, py = 28\<rparr> \<and>
   getCanvasCoordinates rendered 17 48 = \<lparr>px = 7, py = 28\<rparr> \<and>
   position (handleWheel sample_nudge rendered) = \<lparr>px = - (7 / 5), py = - (28 / 5)\<rparr>"
  using wheel_keeps_point_under_cursor_within_rounding
    [of rendered sample_container "\<lparr>width = 800, height = 600, bitmap = []\<rparr>" sample_nudge]
  by (simp add: rendered_eq handleWheel_def getCanvasCoordinates_def sample_nudge_def
      sample_container_def Let_def)

subsection \<open>The inverse of the render transform\<close>

text \<open>
  C4, as the specification has it, fails on doubles. After the wheel event
  \<open>sample_wheel\<close> the zoom is the double 1.2 and the offset (-40, -30). For the client
  point (11, 48) the code gives a coordinate whose image under the render transform is
  not the point: by about \<open>4.2e-15\<close> and \<open>7.0e-16\<close> with the transform itself, and
  11.000000000000007 on the first axis with the transform on doubles.
\<close>

theorem getCanvasCoordinates_round_trip_misses_f64:
  "zoom (handleWheel_f64 sample_wheel rendered) = 5404319552844595 / 2 ^ 52 \<and>
   position (handleWheel_f64 sample_wheel rendered) = \<lparr>px = - 40, py = - 30\<rparr> \<and>
   toClient sample_container
     (renderTransform (handleWheel_f64 sample_wheel rendered)
        (getCanvasCoordinates_f64 (handleWheel_f64 sample_wheel rendered) 11 48)) =
     \<lparr>px = 11 + 1320586765734161 / 2 ^ 98, py = 48 + 440977463513361 / 2 ^ 99\<rparr> \<and>
   toClient sample_container
     (renderTransform (handleWheel_f64 sample_wheel rendered)
        (getCanvasCoordinates_f64 (handleWheel_f64 sample_wheel rendered) 11 48)) \<noteq>
     \<lparr>px = 11, py = 48\<rparr> \<and>
   toClient_f64 sample_container
     (renderTransform_f64 (handleWheel_f64 sample_wheel rendered)
        (getCanvasCoordinates_f64 (handleWheel_f64 sample_wheel rendered) 11 48)) =
     \<lparr>px = 11 + 1 / 2 ^ 47, py = 48\<rparr> \<and>
   toClient_f64 sample_container
     (renderTransform_f64 (handleWheel_f64 sample_wheel rendered)
        (getCanvasCoordinates_f64 (handleWheel_f64 sample_wheel rendered) 11 48)) \<noteq>
     \<lparr>px = 11, py = 48\<rparr>"
  by (simp add: zoomed_eq,
      simp add: rendered_eq getCanvasCoordinates_f64_def renderTransform_def toClient_def
        renderTransform_f64_def toClient_f64_def sample_container_def fl_defs rnd_samples Let_def)

text \<open>
  C4, as the code has it. With both refs set, a zoom between 0.1 and 5, and a cursor
  (relative to the container) and an offset of magnitude at most \<open>2^20\<close> on each axis,
  the render transform (scale by the zoom, move by the offset, add the corner of the
  container) takes the coordinate that the code computes on doubles for a client point
  to within \<open>2^-30\<close> of that point on each axis. In exact arithmetic it takes it to the
  point itself.
\<close>

theorem getCanvasCoordinates_inverts_render_within_rounding:
  assumes "1 / 10 \<le> zoom s" and "zoom s \<le> 5"
    and "containerRef s = Some container" and "canvasRef s = Some cv"
    and "\<bar>cx - rect_left container\<bar> \<le> 2 ^ 20" and "\<bar>cy - rect_top container\<bar> \<le> 2 ^ 20"
    and "\<bar>px (position s)\<bar> \<le> 2 ^ 20" and "\<bar>py (position s)\<bar> \<le> 2 ^ 20"
  shows "\<bar>px (toClient container (renderTransform s (getCanvasCoordinates_f64 s cx cy))) - cx\<bar> \<le>
           1 / 2 ^ 30 \<and>
         \<bar>py (toClient container (renderTransform s (getCanvasCoordinates_f64 s cx cy))) - cy\<bar> \<le>
           1 / 2 ^ 30 \<and>
         toClient container (renderTransform s (getCanvasCoordinates s cx cy)) =
           \<lparr>px = cx, py = cy\<rparr>"
proof -
  have coords:
    "getCanvasCoordinates_f64 s cx cy =
       \<lparr>px = rnd (rnd (rnd (cx - rect_left container) - px (position s)) / zoom s),
        py = rnd (rnd (rnd (cy - rect_top container) - py (position s)) / zoom s)\<rparr>"
    using assms(3,4) by (simp add: getCanvasCoordinates_f64_def fl_defs Let_def)
  have x: "px (toClient container (renderTransform s (getCanvasCoordinates_f64 s cx cy))) - cx =
      px (position s) +
        zoom s * rnd (rnd (rnd (cx - rect_left container) - px (position s)) / zoom s) -
      (cx - rect_left container)"
    by (simp add: coords toClient_def renderTransform_def)
  have y: "py (toClient container (renderTransform s (getCanvasCoordinates_f64 s cx cy))) - cy =
      py (position s) +
        zoom s * rnd (rnd (rnd (cy - rect_top container) - py (position s)) / zoom s) -
      (cy - rect_top container)"
    by (simp add: coords toClient_def renderTransform_def)
  show ?thesis
    using inverse_error [OF assms(1,2,5,7)] inverse_error [OF assms(1,2,6,8)]
      getCanvasCoordinates_inverse_exact [OF assms(1,3,4), of cx cy]
    by (simp only: x y)
qed

theorem getCanvasCoordinates_inverts_render_within_rounding_witness:
  "1 / 10 \<le> zoom (handleWheel_f64 sample_wheel rendered) \<and>
   zoom (handleWheel_f64 sample_wheel rendered) \<le> 5 \<and>
   containerRef (handleWheel_f64 sample_wheel rendered) = Some sample_container \<and>
   canvasRef (handleWheel_f64 sample_wheel rendered) =
     Some \<lparr>width = 800, height = 600, bitmap = []\<rparr> \<and>
   \<bar>11 - rect_left sample_container\<bar> \<le> 2 ^ 20 \<and> \<bar>48 - rect_top sample_container\<bar> \<le> 2 ^ 20 \<and>
   \<bar>px (position (handleWheel_f64 sample_wheel rendered))\<bar> \<le> 2 ^ 20 \<and>
   \<bar>py (position (handleWheel_f64 sample_wheel rendered))\<bar> \<le> 2 ^ 20 \<and>
   \<bar>px (toClient sample_container
          (renderTransform (handleWheel_f64 sample_wheel rendered)
             (getCanvasCoordinates_f64 (handleWheel_f64 sample_wheel rendered) 11 48))) - 11\<bar> \<le>
     1 / 2 ^ 30 \<and>
   \<bar>py (toClient sample_container
          (renderTransform (handleWheel_f64 sample_wheel rendered)
             (getCanvasCoordinates_f64 (handleWheel_f64 sample_wheel rendered) 11 48))) - 48\<bar> \<le>
     1 / 2 ^ 30 \<and>
   toClient sample_container
     (renderTransform (handleWheel_f64 sample_wheel rendered)
        (getCanvasCoordinates (handleWheel_f64 sample_wheel rendered) 11 48)) =
     \<lparr>px = 11, py = 48\<rparr>"
  using getCanvasCoordinates_inverts_render_within_rounding
    [of "handleWheel_f64 sample_wheel rendered" sample_container
        "\<lparr>width = 800, height = 600, bitmap = []\<rparr>" 11 48]
  by (simp add: zoomed_eq, simp add: rendered_eq sample_container_def)

subsection \<open>Panning\<close>

lemma handleMouseMove_zoom: "zoom (handleMouseMove e s) = zoom s"
  by (simp add: handleMouseMove_def Let_def split: option.splits)

text \<open>
  C6. A pointer-move that the handler takes (its target is not a button or an input)
  while the pan tool is active and a drag is under way adds the movement delta of the
  event to the offset and changes no other part of the state; and no pointer-move under
  the pan tool changes the zoom.
\<close>

theorem pan_move_adds_movement_delta:
  "(activeTool s = Pan \<longrightarrow> zoom (handleMouseMove e s) = zoom s) \<and>
   (activeTool s = Pan \<and> isDragging s \<and> targetTag e \<noteq> ''BUTTON'' \<and> targetTag e \<noteq> ''INPUT'' \<longrightarrow>
      handleMouseMove e s =
        s\<lparr>position := \<lparr>px = px (position s) + movementX e,
                        py = py (position s) + movementY e\<rparr>\<rparr>)"
  using handleMouseMove_zoom [of e s] by (simp add: handleMouseMove_def)

theorem pan_move_adds_movement_delta_witness:
  "activeTool (run [MouseDown sample_press] (mounted sample_container True False)) = Pan \<and>
   isDragging (run [MouseDown sample_press] (mounted sample_container True False)) \<and>
   targetTag sample_move \<noteq> ''BUTTON'' \<and> targetTag sample_move \<noteq> ''INPUT'' \<and>
   handleMouseMove sample_move (run [MouseDown sample_press] (mounted sample_container True False)) =
     (run [MouseDown sample_press] (mounted sample_container True False))
       \<lparr>position := \<lparr>px = 20, py = 40\<rparr>\<rparr> \<and>
   zoom (handleMouseMove sample_move
           (run [MouseDown sample_press] (mounted sample_container True False))) = 1"
  using pan_move_adds_movement_delta
    [of "run [MouseDown sample_press] (mounted sample_container True False)" sample_move]
  by (simp add: handler_defs sample_defs)

subsection \<open>Reset\<close>

lemma resetView_view: "zoom (resetView s) = 1 \<and> position (resetView s) = origin"
  by (simp add: resetView_def origin_def Let_def split: option.splits)

lemma resetView_clears: "ctx s \<noteq> None \<Longrightarrow> mask (resetView s) = []"
  by (auto simp: resetView_def mask_def clearRect_def Let_def split: option.splits)

lemma resetView_keeps_blank: "mask s = [] \<Longrightarrow> mask (resetView s) = []"
  by (auto simp: resetView_def mask_def clearRect_def Let_def split: option.splits)

text \<open>
  C7. From any state the reset sets the zoom to 1 and the offset to (0, 0), and with a
  context it leaves the mask fully transparent. On a mounted component, after any
  events, the mask is fully transparent after the reset, with or without a context.
\<close>

theorem resetView_restores_identity_and_clears:
  "zoom (resetView s) = 1 \<and> position (resetView s) = origin \<and>
   (ctx s \<noteq> None \<longrightarrow> mask (resetView s) = []) \<and>
   mask (resetView (run es (mounted container has2d cb))) = []"
proof -
  have "mask (resetView (run es (mounted container has2d cb))) = []"
  proof (cases "ctx (run es (mounted container has2d cb))")
    case None
    then have "mask (run es (mounted container has2d cb)) = []"
      using view_ok_reachable [of es container has2d cb] by (simp add: view_ok_def)
    then show ?thesis by (rule resetView_keeps_blank)
  next
    case (Some c)
    then show ?thesis by (simp add: resetView_clears)
  qed
  then show ?thesis using resetView_view [of s] resetView_clears [of s] by simp
qed

theorem resetView_restores_identity_and_clears_witness:
  "mask (run [ClickDraw, Wheel sample_wheel, MouseDown sample_press, MouseMove sample_move, MouseUp]
           (mounted sample_container True False)) =
     [\<lparr>stroke_path = [[\<lparr>px = 350 / 3, py = 325 / 3\<rparr>, \<lparr>px = 400 / 3, py = 425 / 3\<rparr>]],
       stroke_width = 50 / 3\<rparr>] \<and>
   zoom (run [ClickDraw, Wheel sample_wheel, MouseDown sample_press, MouseMove sample_move, MouseUp]
           (mounted sample_container True False)) = 6 / 5 \<and>
   ctx (run [ClickDraw, Wheel sample_wheel, MouseDown sample_press, MouseMove sample_move, MouseUp]
          (mounted sample_container True False)) \<noteq> None \<and>
   zoom (resetView
     (run [ClickDraw, Wheel sample_wheel, MouseDown sample_press, MouseMove sample_move, MouseUp]
        (mounted sample_container True False))) = 1 \<and>
   position (resetView
     (run [ClickDraw, Wheel sample_wheel, MouseDown sample_press, MouseMove sample_move, MouseUp]
        (mounted sample_container True False))) = \<lparr>px = 0, py = 0\<rparr> \<and>
   mask (resetView
     (run [ClickDraw, Wheel sample_wheel, MouseDown sample_press, MouseMove sample_move, MouseUp]
        (mounted sample_container True False))) = []"
  using resetView_restores_identity_and_clears
    [of "run [ClickDraw, Wheel sample_wheel, MouseDown sample_press, MouseMove sample_move, MouseUp]
           (mounted sample_container True False)"
        "[ClickDraw, Wheel sample_wheel, MouseDown sample_press, MouseMove sample_move, MouseUp]"
        sample_container True False]
  by (simp add: handler_defs sample_defs origin_def Let_def)

subsection \<open>Drawing\<close>

lemma handleMouseMove_draw:
  assumes "activeTool s = Draw" and "isDrawing s" and "ctx s = Some c"
    and "canvasRef s = Some cv" and "0 < brushSize s / zoom s"
    and "targetTag e \<noteq> ''BUTTON''" and "targetTag e \<noteq> ''INPUT''"
  shows "mask (handleMouseMove e s) =
           mask s @ [\<lparr>stroke_path = path (lineTo (getCanvasCoordinates s (clientX e) (clientY e)) c),
                      stroke_width = brushSize s / zoom s\<rparr>]"
    and "map_option lineWidth (ctx (handleMouseMove e s)) = Some (brushSize s / zoom s)"
  using assms
  by (simp_all add: handleMouseMove_def mask_def Let_def set_lineWidth_def stroke_ctx_def)

text \<open>
  C8. On a mounted component, after any events (the slider giving values between 5 and
  100), a pointer-move that draws (draw tool, draw gesture active, target not a control)
  paints one more stroke into the mask, and the line width of that stroke and of the
  context is the brush size divided by the zoom, which is not zero.
\<close>

theorem stroke_width_is_brush_over_zoom:
  assumes "list_all event_ok es" and "s = run es (mounted container has2d cb)"
    and "activeTool s = Draw" and "isDrawing s"
    and "targetTag e \<noteq> ''BUTTON''" and "targetTag e \<noteq> ''INPUT''"
  shows "map stroke_width (mask (handleMouseMove e s)) =
           map stroke_width (mask s) @ [brushSize s / zoom s] \<and>
         map_option lineWidth (ctx (handleMouseMove e s)) = Some (brushSize s / zoom s) \<and>
         zoom s \<noteq> 0"
proof -
  have v: "view_ok s" using assms(2) view_ok_reachable by simp
  have b: "brush_ok s" using assms(1,2) brush_ok_run [OF brush_ok_mounted] by simp
  have z: "0 < zoom s" using v by (simp add: view_ok_def)
  have "0 < brushSize s" using b by (simp add: brush_ok_def)
  then have w: "0 < brushSize s / zoom s" using z by simp
  obtain c where c: "ctx s = Some c" using v assms(4) by (auto simp: view_ok_def)
  obtain cv where cv: "canvasRef s = Some cv" using v by (auto simp: view_ok_def)
  show ?thesis
    using handleMouseMove_draw [OF assms(3,4) c cv w assms(5,6)] z by simp
qed

theorem stroke_width_is_brush_over_zoom_witness:
  "list_all event_ok [ClickDraw, BrushInput 40, Wheel sample_zoom_in, MouseDown sample_press] \<and>
   activeTool (run [ClickDraw, BrushInput 40, Wheel sample_zoom_in, MouseDown sample_press]
                 (mounted sample_container True False)) = Draw \<and>
   isDrawing (run [ClickDraw, BrushInput 40, Wheel sample_zoom_in, MouseDown sample_press]
                (mounted sample_container True False)) \<and>
   targetTag sample_move \<noteq> ''BUTTON'' \<and> targetTag sample_move \<noteq> ''INPUT'' \<and>
   brushSize (run [ClickDraw, BrushInput 40, Wheel sample_zoom_in, MouseDown sample_press]
                (mounted sample_container True False)) = 40 \<and>
   zoom (run [ClickDraw, BrushInput 40, Wheel sample_zoom_in, MouseDown sample_press]
           (mounted sample_container True False)) = 2 \<and>
   map stroke_width (mask (handleMouseMove sample_move
     (run [ClickDraw, BrushInput 40, Wheel sample_zoom_in, MouseDown sample_press]
        (mounted sample_container True False)))) = [20]"
  using stroke_width_is_brush_over_zoom
    [of "[ClickDraw, BrushInput 40, Wheel sample_zoom_in, MouseDown sample_press]"
        "run [ClickDraw, BrushInput 40, Wheel sample_zoom_in, MouseDown sample_press]
           (mounted sample_container True False)"
        sample_container True False sample_move]
  by (simp add: handler_defs sample_defs Let_def)

subsection \<open>Guards\<close>

text \<open>
  C9. With the canvas ref or the container ref empty, \<open>getCanvasCoordinates\<close> returns
  the origin. With no \<open>onMaskChange\<close> callback, the handler of pointer-up and
  pointer-leave only clears the two gesture flags: it makes no call and fails in no way.
\<close>

theorem guards_for_missing_refs_and_callback:
  "(canvasRef s = None \<or> containerRef s = None \<longrightarrow> getCanvasCoordinates s cx cy = origin) \<and>
   (\<not> onMaskChange s \<longrightarrow> handleMouseUp s = s\<lparr>isDragging := False, isDrawing := False\<rparr>)"
  by (auto simp: getCanvasCoordinates_def handleMouseUp_def origin_def Let_def
      split: option.splits)

theorem guards_for_missing_refs_and_callback_witness:
  "canvasRef (initialState False) = None \<and>
   getCanvasCoordinates (initialState False) 130 160 = \<lparr>px = 0, py = 0\<rparr> \<and>
   \<not> onMaskChange (run [ClickDraw, MouseDown sample_press] (mounted sample_container True False)) \<and>
   isDrawing (run [ClickDraw, MouseDown sample_press] (mounted sample_container True False)) \<and>
   handleMouseUp (run [ClickDraw, MouseDown sample_press] (mounted sample_container True False)) =
     (run [ClickDraw, MouseDown sample_press] (mounted sample_container True False))
       \<lparr>isDragging := False, isDrawing := False\<rparr> \<and>
   maskChanges
     (handleMouseUp (run [ClickDraw, MouseDown sample_press] (mounted sample_container True False))) = []"
  using guards_for_missing_refs_and_callback [of "initialState False" 130 160]
    guards_for_missing_refs_and_callback
      [of "run [ClickDraw, MouseDown sample_press] (mounted sample_container True False)"]
  by (simp add: handler_defs sample_defs origin_def Let_def)

subsection \<open>The gesture flags\<close>

lemma flags_handleMouseDown:
  "flags_match_tool s \<Longrightarrow> flags_match_tool (handleMouseDown e s)"
  by (cases "activeTool s"; cases "ctx s")
     (simp_all add: flags_match_tool_def handleMouseDown_def Let_def)

lemma handleMouseMove_flags:
  "isDragging (handleMouseMove e s) = isDragging s \<and>
   isDrawing (handleMouseMove e s) = isDrawing s \<and>
   activeTool (handleMouseMove e s) = activeTool s"
  by (cases "ctx s") (simp_all add: handleMouseMove_def Let_def)

lemma flags_handleMouseMove:
  "flags_match_tool s \<Longrightarrow> flags_match_tool (handleMouseMove e s)"
  using handleMouseMove_flags [of e s] by (simp add: flags_match_tool_def)

lemma handleMouseUp_idle: "\<not> isDragging (handleMouseUp s) \<and> \<not> isDrawing (handleMouseUp s)"
  by (cases "canvasRef s") (simp_all add: handleMouseUp_def Let_def)

lemma flags_handleMouseUp: "flags_match_tool (handleMouseUp s)"
  using handleMouseUp_idle [of s] by (simp add: flags_match_tool_def)

lemma flags_match_tool_handle:
  "flags_match_tool s \<Longrightarrow> pointer_event e \<Longrightarrow> flags_match_tool (handle e s)"
  by (cases e)
     (simp_all add: flags_handleMouseDown flags_handleMouseMove flags_handleMouseUp)

lemma flags_match_tool_run:
  "flags_match_tool s \<Longrightarrow> list_all pointer_event es \<Longrightarrow> flags_match_tool (run es s)"
  by (induction es arbitrary: s) (auto simp: flags_match_tool_handle)

lemma flags_match_tool_exclusive: "flags_match_tool s \<Longrightarrow> \<not> (isDragging s \<and> isDrawing s)"
  by (auto simp: flags_match_tool_def)

text \<open>
  C10. From a state with both flags clear, after any sequence of pointer-down,
  pointer-move, pointer-up and pointer-leave events the two flags are not both set; and
  from any state a pointer-up or a pointer-leave clears both.
\<close>

theorem gesture_flags_exclusive_and_released:
  assumes "\<not> isDragging s" and "\<not> isDrawing s" and "list_all pointer_event es"
  shows "\<not> (isDragging (run es s) \<and> isDrawing (run es s)) \<and>
         \<not> isDragging (handle MouseUp t) \<and> \<not> isDrawing (handle MouseUp t) \<and>
         \<not> isDragging (handle MouseLeave t) \<and> \<not> isDrawing (handle MouseLeave t)"
proof -
  have "flags_match_tool s" using assms(1,2) by (simp add: flags_match_tool_def)
  then have "flags_match_tool (run es s)" using assms(3) by (rule flags_match_tool_run)
  then have "\<not> (isDragging (run es s) \<and> isDrawing (run es s))"
    by (rule flags_match_tool_exclusive)
  then show ?thesis using handleMouseUp_idle [of t] by simp
qed

theorem gesture_flags_exclusive_and_released_witness:
  "\<not> isDragging (mounted sample_container True False) \<and>
   \<not> isDrawing (mounted sample_container True False) \<and>
   list_all pointer_event [MouseDown sample_press, MouseMove sample_move, MouseLeave,
     MouseDown sample_press] \<and>
   isDragging (run [MouseDown sample_press, MouseMove sample_move, MouseLeave,
     MouseDown sample_press] (mounted sample_container True False)) \<and>
   \<not> isDrawing (run [MouseDown sample_press, MouseMove sample_move, MouseLeave,
     MouseDown sample_press] (mounted sample_container True False)) \<and>
   \<not> isDragging (handle MouseUp (run [MouseDown sample_press, MouseMove sample_move, MouseLeave,
     MouseDown sample_press] (mounted sample_container True False)))"
  using gesture_flags_exclusive_and_released
    [of "mounted sample_container True False"
        "[MouseDown sample_press, MouseMove sample_move, MouseLeave, MouseDown sample_press]"
        "run [MouseDown sample_press, MouseMove sample_move, MouseLeave, MouseDown sample_press]
           (mounted sample_container True False)"]
  by (simp add: handler_defs sample_defs Let_def)

text \<open>
  The sequences of C10 hold no tool selection. With one between two presses (the draw
  button reached from the keyboard while the pointer is held down, and a second press
  arriving before any release) both flags are set.
\<close>

lemma tool_switch_between_presses_sets_both_flags:
  "isDragging (run [MouseDown sample_press, ClickDraw, MouseDown sample_press]
                 (mounted sample_container True False)) \<and>
   isDrawing (run [MouseDown sample_press, ClickDraw, MouseDown sample_press]
                (mounted sample_container True False))"
  by (simp add: handler_defs sample_defs Let_def)

subsection \<open>The export callback\<close>

lemma handle_callback_frame:
  "onMaskChange (handle e s) = onMaskChange s \<and>
   (canvasRef (handle e s) = None) = (canvasRef s = None)"
  by (cases e)
     (auto simp: handleWheel_def handleMouseDown_def handleMouseMove_def handleMouseUp_def
        resetView_def renderCanvas_def dispatchLoad_def Let_def split: option.splits)

lemma handle_maskChanges:
  "length (maskChanges (handle e s)) =
     length (maskChanges s) +
       (if release_event e \<and> onMaskChange s \<and> canvasRef s \<noteq> None then 1 else 0)"
  by (cases e)
     (auto simp: handleWheel_def handleMouseDown_def handleMouseMove_def handleMouseUp_def
        resetView_def renderCanvas_def dispatchLoad_def Let_def split: option.splits)

text \<open>
  C1, as the code has it. The callback is called once for every pointer-up and every
  pointer-leave of a component that has a callback and a canvas, whatever the tool and
  whether or not a gesture was under way, and by nothing else: the number of calls made
  during any sequence of events is the number of pointer-up and pointer-leave events in
  it. So a draw gesture that ends with one such event makes one call, a pan gesture
  does too, and the reset, pointer-down, pointer-move and wheel make none.
\<close>

theorem onMaskChange_once_per_release:
  "length (maskChanges (run es s)) =
     length (maskChanges s) +
       (if onMaskChange s \<and> canvasRef s \<noteq> None then length (filter release_event es) else 0)"
proof (induction es arbitrary: s)
  case Nil
  then show ?case by simp
next
  case (Cons e es)
  show ?case
    using Cons.IH [of "handle e s"] handle_maskChanges [of e s] handle_callback_frame [of e s]
    by auto
qed

theorem onMaskChange_once_per_release_witness:
  "onMaskChange (mounted sample_container True True) \<and>
   canvasRef (mounted sample_container True True) \<noteq> None \<and>
   maskChanges (mounted sample_container True True) = [] \<and>
   length (maskChanges
     (run [ClickDraw, MouseDown sample_press, MouseMove sample_move, MouseUp, ClickReset]
        (mounted sample_container True True))) = 1 \<and>
   length (maskChanges (run [ClickReset] (mounted sample_container True True))) = 0"
  using onMaskChange_once_per_release
    [of "[ClickDraw, MouseDown sample_press, MouseMove sample_move, MouseUp, ClickReset]"
        "mounted sample_container True True"]
    onMaskChange_once_per_release [of "[ClickReset]" "mounted sample_container True True"]
  by (simp add: handler_defs sample_defs)

text \<open>
  C1, as the specification has it, fails for a pan gesture: with a callback registered,
  press, move and release under the pan tool make one call, not none.
\<close>

theorem pan_gesture_calls_onMaskChange:
  "activeTool (mounted sample_container True True) = Pan \<and>
   isDragging (run [MouseDown sample_press] (mounted sample_container True True)) \<and>
   activeTool (run [MouseDown sample_press, MouseMove sample_move]
                 (mounted sample_container True True)) = Pan \<and>
   maskChanges (run [MouseDown sample_press, MouseMove sample_move]
                  (mounted sample_container True True)) = [] \<and>
   length (maskChanges (run [MouseDown sample_press, MouseMove sample_move, MouseUp]
                          (mounted sample_container True True))) = 1"
  by (simp add: handler_defs sample_defs Let_def)

subsection \<open>The size of the mask\<close>

text \<open>
  C2. In a container of 800 by 600 pixels, an image of 400 by 300 pixels is loaded. The
  canvas takes the size of the container at the render after mount and keeps it: the
  load of the image reaches no handler, since \<open>onLoad\<close> is a prop of the canvas.
\<close>

theorem mask_size_is_container_size:
  "maskSize (run [Render, ImageLoaded 400 300, Render] (mounted sample_container True False)) =
     Some (800, 600)"
  by (simp add: handler_defs sample_defs)

theorem mask_size_is_container_size_witness:
  "maskSize (run [Render, ImageLoaded 400 300, Render] (mounted sample_container True False)) \<noteq>
     Some (400, 300)"
  using mask_size_is_container_size by simp

text \<open>
  Whatever the events, the size of the mask is the default of a canvas or the size of
  the container; the natural size of the image plays no part.
\<close>

lemma maskSize_frame:
  "maskSize (handleWheel w s) = maskSize s"
  "maskSize (handleMouseDown m s) = maskSize s"
  "maskSize (handleMouseMove m s) = maskSize s"
  "maskSize (handleMouseUp s) = maskSize s"
  "maskSize (resetView s) = maskSize s"
  by (cases "canvasRef s"; cases "containerRef s"; cases "ctx s";
      simp add: maskSize_def handleWheel_def handleMouseDown_def handleMouseMove_def
        handleMouseUp_def resetView_def clearRect_def stroke_ctx_def Let_def)+

lemma containerRef_handle: "containerRef (handle e s) = containerRef s"
  by (cases e; cases "canvasRef s"; cases "containerRef s"; cases "ctx s")
     (simp_all add: handleWheel_def handleMouseDown_def handleMouseMove_def handleMouseUp_def
        resetView_def renderCanvas_def dispatchLoad_def Let_def)

lemma maskSize_renderCanvas:
  "containerRef s = Some container \<Longrightarrow> maskSize s \<noteq> None \<Longrightarrow>
   maskSize (renderCanvas s) = Some (clientWidth container, clientHeight container)"
  by (cases "canvasRef s")
     (auto simp: maskSize_def renderCanvas_def canvasWidthProp_def canvasHeightProp_def)

lemma maskSize_handle:
  "containerRef s = Some container \<Longrightarrow> maskSize s \<noteq> None \<Longrightarrow>
   maskSize (handle e s) = maskSize s \<or>
   maskSize (handle e s) = Some (clientWidth container, clientHeight container)"
proof (cases e)
  case Render
  then show "containerRef s = Some container \<Longrightarrow> maskSize s \<noteq> None \<Longrightarrow> ?thesis"
    by (simp add: maskSize_renderCanvas)
qed (simp_all add: maskSize_frame dispatchLoad_def, simp_all add: maskSize_def)

lemma mask_size_run:
  assumes "containerRef s = Some container"
    and "maskSize s = Some (300, 150) \<or> maskSize s = Some (clientWidth container, clientHeight container)"
  shows "maskSize (run es s) = Some (300, 150) \<or>
         maskSize (run es s) = Some (clientWidth container, clientHeight container)"
  using assms
proof (induction es arbitrary: s)
  case Nil
  then show ?case by simp
next
  case (Cons e es)
  have "maskSize s \<noteq> None" using Cons.prems(2) by auto
  then have "maskSize (handle e s) = Some (300, 150) \<or>
       maskSize (handle e s) = Some (clientWidth container, clientHeight container)"
    using maskSize_handle [OF Cons.prems(1), of e] Cons.prems(2) by auto
  then show ?case
    using Cons.IH [of "handle e s"] Cons.prems(1) by (simp add: containerRef_handle)
qed

lemma mask_size_never_from_image:
  "maskSize (run es (mounted container has2d cb)) = Some (300, 150) \<or>
   maskSize (run es (mounted container has2d cb)) = Some (clientWidth container, clientHeight container)"
  by (rule mask_size_run) (simp_all add: handler_defs split: option.splits)

end
